theory Spec2Isabelle
  imports Complex_Main "HOL-Library.Word" "HOL-Library.Sublist"
begin

section \<open>Telos Core: taint-based enforcement engine and its loader daemon\<close>

text \<open>
  The development embeds two cooperating programs of the repository:
  \<^item> the eBPF LSM program \<^verbatim>\<open>telos_core/src/bpf_lsm.c\<close> (with \<^verbatim>\<open>shared/common_maps.h\<close>):
    the hooks \<^verbatim>\<open>telos_check_exec\<close> and \<^verbatim>\<open>telos_check_file\<close> and the helper
    \<^verbatim>\<open>emit_event\<close>;
  \<^item> the Go loader daemon \<^verbatim>\<open>telos_core/loader/main.go\<close>: bootstrap
    (\<^verbatim>\<open>main\<close>, \<^verbatim>\<open>Start\<close>, \<^verbatim>\<open>loadBPF\<close>, \<^verbatim>\<open>initConfig\<close>) and the command protocol
    (\<^verbatim>\<open>handleConnection\<close>, \<^verbatim>\<open>handleCommand\<close> and the five handlers).
  Both sides act on the same three BPF maps, which are modelled as one record that is
  passed in and returned updated.
\<close>

subsection \<open>Shared definitions (common\_maps.h)\<close>

type_synonym u32 = "32 word"
type_synonym u64 = "64 word"

definition TAINT_CLEAN :: u32 where "TAINT_CLEAN = 0"
definition TAINT_LOW :: u32 where "TAINT_LOW = 1"
definition TAINT_MEDIUM :: u32 where "TAINT_MEDIUM = 2"
definition TAINT_HIGH :: u32 where "TAINT_HIGH = 3"
definition TAINT_CRITICAL :: u32 where "TAINT_CRITICAL = 4"

text \<open>
  \<^verbatim>\<open>struct process_info_t\<close>. The field \<open>comm\<close> is a \<^verbatim>\<open>char[16]\<close>: a list of 16 bytes.
  The Go struct \<^verbatim>\<open>ProcessInfo\<close> is the same record seen from the loader.
\<close>

record process_info_t =
  pid :: u32
  taint_level :: u32
  is_sandboxed :: u32
  comm :: string

subsection \<open>Maps of the eBPF program (bpf\_lsm.c)\<close>

definition EPERM :: int where "EPERM = 1"

text \<open>\<^verbatim>\<open>struct telos_config_t\<close>; the Go struct \<^verbatim>\<open>Config\<close> is the same record.\<close>

record telos_config_t =
  max_taint_for_exec :: u32
  max_taint_for_open :: u32
  enabled :: u32

text \<open>
  \<^verbatim>\<open>struct event_t\<close>. Its fields \<^verbatim>\<open>pid\<close>, \<^verbatim>\<open>taint_level\<close> and \<^verbatim>\<open>comm\<close> carry the prefix
  \<open>event_\<close> here, because \<open>process_info_t\<close> already owns these names. The field
  \<open>event_action\<close> holds the C string found in \<^verbatim>\<open>char action[16]\<close>.
\<close>

record event_t =
  event_pid :: u32
  event_taint_level :: u32
  event_blocked :: u32
  event_comm :: string
  event_action :: string

text \<open>
  The ring buffer \<^verbatim>\<open>events\<close>: the records submitted so far, oldest first, and the number
  of further records for which a reservation still succeeds. Nothing in the repository
  consumes the buffer, so room is only ever used up.
\<close>

record ringbuf =
  submitted :: "event_t list"
  room :: nat

text \<open>
  The three maps. \<open>process_map\<close> is the hash map from PID to \<open>process_info_t\<close>
  (\<^verbatim>\<open>max_entries\<close> 4096); \<open>config_map\<close> is the one-slot array, read as the result of
  looking up key 0; \<open>events\<close> is the ring buffer.
\<close>

record bpf_maps =
  process_map :: "u32 \<rightharpoonup> process_info_t"
  config_map :: "telos_config_t option"
  events :: ringbuf

definition process_map_max_entries :: nat where
  "process_map_max_entries = 4096"

subsection \<open>What a hook invocation sees of the calling task\<close>

text \<open>
  \<open>current_pid_tgid\<close> is the value of \<^verbatim>\<open>bpf_get_current_pid_tgid()\<close>, \<open>current_task\<close> the
  result of \<^verbatim>\<open>bpf_get_current_task()\<close> (\<open>None\<close> for a null pointer) and \<open>current_comm\<close>
  what \<^verbatim>\<open>bpf_get_current_comm\<close> writes.
\<close>

record task_struct =
  real_parent_tgid :: u32

record hook_ctx =
  current_pid_tgid :: u64
  current_task :: "task_struct option"
  current_comm :: string

text \<open>
  \<^verbatim>\<open>struct file\<close> (here \<open>struct_file\<close>) as far as the file-open hook reads it: the dentry (\<open>None\<close> for a
  null pointer) and, in it, the string that \<^verbatim>\<open>d_name.name\<close> points to (\<open>None\<close> when the
  kernel read of that pointer faults).
\<close>

record dentry =
  d_name :: "string option"

record struct_file =
  f_dentry :: "dentry option"

subsection \<open>Helper functions\<close>

definition get_config :: "bpf_maps \<Rightarrow> telos_config_t option" where
  "get_config m = config_map m"

text \<open>\<^verbatim>\<open>bpf_ringbuf_reserve\<close>: a null pointer when the buffer has no room.\<close>

definition bpf_ringbuf_reserve :: "ringbuf \<Rightarrow> unit option" where
  "bpf_ringbuf_reserve rb = (if room rb = 0 then None else Some ())"

definition bpf_ringbuf_submit :: "event_t \<Rightarrow> ringbuf \<Rightarrow> ringbuf" where
  "bpf_ringbuf_submit ev rb = \<lparr>submitted = submitted rb @ [ev], room = room rb - 1\<rparr>"

text \<open>
  \<^verbatim>\<open>emit_event\<close>. When the reservation fails the function returns without writing
  anything. The \<^verbatim>\<open>memcpy\<close> of 7 bytes stores the literal and its terminator at the start
  of \<^verbatim>\<open>action\<close>; both literals of the program (\<^verbatim>\<open>"execve"\<close>, \<^verbatim>\<open>"open"\<close>) are at most 6
  characters long, so the C string in the field is the literal.
\<close>

definition emit_event :: "hook_ctx \<Rightarrow> u32 \<Rightarrow> u32 \<Rightarrow> u32 \<Rightarrow> string \<Rightarrow> bpf_maps \<Rightarrow> bpf_maps" where
  "emit_event ctx p taint blocked act m =
     (case bpf_ringbuf_reserve (events m) of
        None \<Rightarrow> m
      | Some _ \<Rightarrow>
          m\<lparr>events := bpf_ringbuf_submit
               \<lparr>event_pid = p, event_taint_level = taint, event_blocked = blocked,
                event_comm = current_comm ctx, event_action = act\<rparr> (events m)\<rparr>)"

subsection \<open>LSM hooks\<close>

text \<open>\<^verbatim>\<open>bpf_get_current_pid_tgid() >> 32\<close>, stored in a \<^verbatim>\<open>__u32\<close>.\<close>

definition current_pid :: "hook_ctx \<Rightarrow> u32" where
  "current_pid ctx = ucast (drop_bit 32 (current_pid_tgid ctx))"

text \<open>
  \<^verbatim>\<open>telos_check_exec\<close> (hook \<^verbatim>\<open>lsm/bprm_check_security\<close>). The result is the hook's
  return value (0 allows, \<open>- EPERM\<close> denies) and the maps after the call.
\<close>

definition telos_check_exec :: "hook_ctx \<Rightarrow> bpf_maps \<Rightarrow> int \<times> bpf_maps" where
  "telos_check_exec ctx m =
     (let p = current_pid ctx;
          config = get_config m;
          max_taint = (case config of Some c \<Rightarrow> max_taint_for_exec c | None \<Rightarrow> TAINT_MEDIUM);
          enforce = (case config of Some c \<Rightarrow> enabled c | None \<Rightarrow> 1);
          effective_taint =
            (case process_map m p of
               Some info \<Rightarrow> taint_level info
             | None \<Rightarrow>
                 (case current_task ctx of
                    None \<Rightarrow> TAINT_CLEAN
                  | Some task \<Rightarrow>
                      (case process_map m (real_parent_tgid task) of
                         Some parent_info \<Rightarrow> taint_level parent_info
                       | None \<Rightarrow> TAINT_CLEAN)))
      in if effective_taint > max_taint
         then (let m' = emit_event ctx p effective_taint 1 ''execve'' m
               in if enforce \<noteq> 0 then (- EPERM, m') else (0, m'))
         else (0, m))"

text \<open>
  \<^verbatim>\<open>bpf_probe_read_kernel_str(&filename, 32, name)\<close>: a negative result when the read
  faults; otherwise at most 31 characters of the string and a terminating NUL are
  written, and the result is the number of bytes written. The bytes of the 32-byte
  buffer behind the terminator are not written; the model returns the written part.
\<close>

definition bpf_probe_read_kernel_str :: "nat \<Rightarrow> string option \<Rightarrow> int \<times> string" where
  "bpf_probe_read_kernel_str sz src =
     (case src of
        None \<Rightarrow> (- 14, [])
      | Some s \<Rightarrow>
          (let written = take (sz - 1) s @ [CHR 0x00]
           in (int (length written), written)))"

text \<open>
  \<^verbatim>\<open>telos_check_file\<close> (hook \<^verbatim>\<open>lsm/file_open\<close>). The name test reads \<^verbatim>\<open>filename[1]\<close>
  only after \<^verbatim>\<open>filename[0] == 'i'\<close> and \<^verbatim>\<open>filename[2]\<close> only after
  \<^verbatim>\<open>filename[1] == 'd'\<close>, so every byte that decides the test lies in the written part.
\<close>

definition telos_check_file :: "hook_ctx \<Rightarrow> struct_file \<Rightarrow> bpf_maps \<Rightarrow> int \<times> bpf_maps" where
  "telos_check_file ctx f m =
     (let p = current_pid ctx
      in case process_map m p of
           None \<Rightarrow> (0, m)
         | Some info \<Rightarrow>
             (let config = get_config m;
                  max_taint = (case config of Some c \<Rightarrow> max_taint_for_open c | None \<Rightarrow> TAINT_HIGH);
                  enforce = (case config of Some c \<Rightarrow> enabled c | None \<Rightarrow> 1)
              in if taint_level info \<ge> TAINT_CRITICAL
                 then (case f_dentry f of
                         None \<Rightarrow> (0, m)
                       | Some d \<Rightarrow>
                           (let (ret, filename) = bpf_probe_read_kernel_str 32 (d_name d)
                            in if ret < 0 then (0, m)
                               else if filename ! 0 = CHR ''i'' \<and> filename ! 1 = CHR ''d''
                                       \<and> filename ! 2 = CHR ''_''
                                    then (let m' = emit_event ctx p (taint_level info) 1 ''open'' m
                                          in if enforce \<noteq> 0 then (- EPERM, m') else (0, m'))
                                    else (0, m)))
                 else (0, m)))"

text \<open>
  \<^verbatim>\<open>telos_task_alloc\<close> (hook \<^verbatim>\<open>lsm/task_alloc\<close>) looks the creating process up and allows the
  creation in either case, without writing to any map.
\<close>

definition telos_task_alloc :: "hook_ctx \<Rightarrow> bpf_maps \<Rightarrow> int \<times> bpf_maps" where
  "telos_task_alloc ctx m =
     (case process_map m (current_pid ctx) of
        None \<Rightarrow> (0, m)
      | Some parent_info \<Rightarrow> (0, m))"

subsection \<open>Loader daemon: data structures (main.go)\<close>

text \<open>
  A decoded JSON value as \<^verbatim>\<open>encoding/json\<close> stores it in an \<^verbatim>\<open>interface{}\<close>: numbers are
  \<^verbatim>\<open>float64\<close> (here the real number they denote), objects are maps.
\<close>

datatype json =
  JNull
| JBool bool
| JNumber real
| JString string
| JArray "json list"
| JObject "(string \<times> json) list"

text \<open>The type assertions \<^verbatim>\<open>.(float64)\<close> and \<^verbatim>\<open>.(string)\<close> on a map lookup, with their \<^verbatim>\<open>ok\<close>.\<close>

definition as_float64 :: "json option \<Rightarrow> real option" where
  "as_float64 v = (case v of Some (JNumber x) \<Rightarrow> Some x | _ \<Rightarrow> None)"

definition as_string :: "json option \<Rightarrow> string option" where
  "as_string v = (case v of Some (JString s) \<Rightarrow> Some s | _ \<Rightarrow> None)"

text \<open>
  The conversion \<^verbatim>\<open>uint32(f)\<close> discards the fraction (towards zero). For a value
  whose integer part is outside the range of \<^verbatim>\<open>uint32\<close> Go leaves the result to the
  implementation; the model leaves it unspecified.
\<close>

definition uint32 :: "real \<Rightarrow> u32" where
  "uint32 x =
     (let t = (if x < 0 then - \<lfloor>- x\<rfloor> else \<lfloor>x\<rfloor>)
      in if 0 \<le> t \<and> t < 2 ^ 32 then word_of_int t else undefined)"

record IPCCommand =
  Command :: string
  Data :: "string \<rightharpoonup> json"

text \<open>
  The \<^verbatim>\<open>Data\<close> field of a response (\<open>RespData\<close> here, \<open>Data\<close> being the command's field):
  nil, the string of \<^verbatim>\<open>PING\<close>, or the state of \<^verbatim>\<open>GET_STATE\<close> with its entries
  \<^verbatim>\<open>"processes"\<close> and \<^verbatim>\<open>"count"\<close>.
\<close>

record state_data =
  processes :: "u32 \<rightharpoonup> (string \<rightharpoonup> u32)"
  count :: nat

datatype resp_data = NoData | DataString string | DataState state_data

record IPCResponse =
  Success :: bool
  Error :: string
  RespData :: resp_data

subsection \<open>Operations of the process map as the loader calls them\<close>

text \<open>
  \<^verbatim>\<open>ProcessMap.Put\<close> and \<^verbatim>\<open>ProcessMap.Delete\<close> on the kernel's hash map: a put replaces the
  value of a present key and adds an absent key unless the map already holds
  \<^verbatim>\<open>max_entries\<close> keys; a delete of an absent key is an error.
\<close>

datatype map_error = ErrMapFull | ErrKeyNotExist

definition err_Error :: "map_error \<Rightarrow> string" where
  "err_Error e =
     (case e of
        ErrMapFull \<Rightarrow> ''update: key too big for map: argument list too long''
      | ErrKeyNotExist \<Rightarrow> ''delete: key does not exist'')"

definition ProcessMap_Put :: "bpf_maps \<Rightarrow> u32 \<Rightarrow> process_info_t \<Rightarrow> map_error + bpf_maps" where
  "ProcessMap_Put m k v =
     (if process_map m k = None \<and> card (dom (process_map m)) \<ge> process_map_max_entries
      then Inl ErrMapFull
      else Inr (m\<lparr>process_map := (process_map m)(k \<mapsto> v)\<rparr>))"

definition ProcessMap_Delete :: "bpf_maps \<Rightarrow> u32 \<Rightarrow> map_error + bpf_maps" where
  "ProcessMap_Delete m k =
     (if process_map m k = None
      then Inl ErrKeyNotExist
      else Inr (m\<lparr>process_map := (process_map m)(k := None)\<rparr>))"

subsection \<open>Command handlers\<close>

text \<open>
  Each handler takes the maps and the command's \<^verbatim>\<open>data\<close> and returns the response and the
  maps after the call. The handlers' log lines are not part of the model.
\<close>

definition missing_or_invalid :: "string \<Rightarrow> string" where
  "missing_or_invalid field = ''Missing or invalid '' @ [CHR 0x27] @ field @ [CHR 0x27]"

definition failure :: "string \<Rightarrow> IPCResponse" where
  "failure msg = \<lparr>Success = False, Error = msg, RespData = NoData\<rparr>"

definition success :: IPCResponse where
  "success = \<lparr>Success = True, Error = [], RespData = NoData\<rparr>"

text \<open>A zeroed \<^verbatim>\<open>[16]byte\<close>, and \<^verbatim>\<open>copy(info.Comm[:], []byte(comm))\<close> into it.\<close>

definition zero_comm :: string where
  "zero_comm = replicate 16 (CHR 0x00)"

definition copy_comm :: "string \<Rightarrow> string" where
  "copy_comm src = take 16 src @ drop (length (take 16 src)) zero_comm"

definition cmdUpdateTaint :: "bpf_maps \<Rightarrow> (string \<rightharpoonup> json) \<Rightarrow> IPCResponse \<times> bpf_maps" where
  "cmdUpdateTaint m data =
     (case as_float64 (data ''pid'') of
        None \<Rightarrow> (failure (missing_or_invalid ''pid''), m)
      | Some pidFloat \<Rightarrow>
          (case as_float64 (data ''taint_level'') of
             None \<Rightarrow> (failure (missing_or_invalid ''taint_level''), m)
           | Some levelFloat \<Rightarrow>
               (let info = \<lparr>pid = uint32 pidFloat, taint_level = uint32 levelFloat,
                            is_sandboxed = 0, comm = zero_comm\<rparr>
                in case ProcessMap_Put m (uint32 pidFloat) info of
                     Inl err \<Rightarrow> (failure (err_Error err), m)
                   | Inr m' \<Rightarrow> (success, m'))))"

definition cmdClearTaint :: "bpf_maps \<Rightarrow> (string \<rightharpoonup> json) \<Rightarrow> IPCResponse \<times> bpf_maps" where
  "cmdClearTaint m data =
     (case as_float64 (data ''pid'') of
        None \<Rightarrow> (failure (missing_or_invalid ''pid''), m)
      | Some pidFloat \<Rightarrow>
          (case ProcessMap_Delete m (uint32 pidFloat) of
             Inl err \<Rightarrow> (success, m)
           | Inr m' \<Rightarrow> (success, m')))"

definition cmdRegisterAgent :: "bpf_maps \<Rightarrow> (string \<rightharpoonup> json) \<Rightarrow> IPCResponse \<times> bpf_maps" where
  "cmdRegisterAgent m data =
     (case as_float64 (data ''pid'') of
        None \<Rightarrow> (failure (missing_or_invalid ''pid''), m)
      | Some pidFloat \<Rightarrow>
          (let comm_arg = (case as_string (data ''comm'') of Some s \<Rightarrow> s | None \<Rightarrow> []);
               info = \<lparr>pid = uint32 pidFloat, taint_level = TAINT_CLEAN, is_sandboxed = 0,
                       comm = (if comm_arg \<noteq> [] then copy_comm comm_arg else zero_comm)\<rparr>
           in case ProcessMap_Put m (uint32 pidFloat) info of
                Inl err \<Rightarrow> (failure (err_Error err), m)
              | Inr m' \<Rightarrow> (success, m')))"

definition cmdGetState :: "bpf_maps \<Rightarrow> IPCResponse \<times> bpf_maps" where
  "cmdGetState m =
     (\<lparr>Success = True, Error = [],
       RespData = DataState
         \<lparr>processes =
            (\<lambda>key. case process_map m key of
                      None \<Rightarrow> None
                    | Some v \<Rightarrow> Some [''taint_level'' \<mapsto> taint_level v,
                                      ''sandboxed'' \<mapsto> is_sandboxed v]),
          count = card (dom (process_map m))\<rparr>\<rparr>, m)"

definition handleCommand :: "bpf_maps \<Rightarrow> IPCCommand \<Rightarrow> IPCResponse \<times> bpf_maps" where
  "handleCommand m cmd =
     (if Command cmd = ''PING''
        then (\<lparr>Success = True, Error = [], RespData = DataString ''pong''\<rparr>, m)
      else if Command cmd = ''UPDATE_TAINT'' then cmdUpdateTaint m (Data cmd)
      else if Command cmd = ''CLEAR_TAINT'' then cmdClearTaint m (Data cmd)
      else if Command cmd = ''REGISTER_AGENT'' then cmdRegisterAgent m (Data cmd)
      else if Command cmd = ''GET_STATE'' then cmdGetState m
      else (failure (''Unknown command: '' @ Command cmd), m))"

text \<open>
  \<^verbatim>\<open>handleConnection\<close>. The input is what the connection delivers, line by line: for each
  line the outcome of \<^verbatim>\<open>json.Unmarshal\<close> (its error text, or the decoded command). The end
  of the list is the read error that ends the loop. The result lists the responses
  written to the connection, in order.
\<close>

datatype wire_line = Undecodable string | Decoded IPCCommand

fun handleConnection :: "bpf_maps \<Rightarrow> wire_line list \<Rightarrow> IPCResponse list \<times> bpf_maps" where
  "handleConnection m [] = ([], m)"
| "handleConnection m (Undecodable err # rest) =
     (let (resps, m') = handleConnection m rest
      in (failure (''Invalid JSON: '' @ err) # resps, m'))"
| "handleConnection m (Decoded cmd # rest) =
     (let (resp, m1) = handleCommand m cmd;
          (resps, m') = handleConnection m1 rest
      in (resp # resps, m'))"

subsection \<open>Bootstrap\<close>

text \<open>
  The outcomes of the calls the bootstrap makes outside the program: for a call that
  returns an \<^verbatim>\<open>error\<close>, \<open>None\<close> is \<^verbatim>\<open>nil\<close> and \<open>Some text\<close> an error with that text.
  \<open>NewCollection\<close> yields the loaded collection, \<open>AttachLSM\<close> is indexed by the name of the
  program being attached, \<open>flag_socket\<close> and \<open>flag_bpf_obj\<close> are the parsed flags.
\<close>

record Collection =
  Maps :: bpf_maps
  Programs :: "string list"

record boot_env =
  flag_socket :: string
  flag_bpf_obj :: string
  Geteuid :: nat
  RemoveMemlock :: "string option"
  MkdirAll :: "string option"
  LoadCollectionSpec :: "string option"
  NewCollection :: "string + Collection"
  Pin :: "string option"
  AttachLSM :: "string \<Rightarrow> string option"
  ConfigMap_Put :: "string option"
  Listen :: "string option"

text \<open>A link is \<open>Some name\<close> once the program \<open>name\<close> is attached and \<open>None\<close> while nil.\<close>

record BPFLinks =
  CheckExec :: "string option"
  CheckFile :: "string option"
  TaskAlloc :: "string option"

text \<open>
  \<^verbatim>\<open>TelosDaemon\<close>. \<open>listener\<close> tells whether the socket listener exists (and connections
  are accepted); \<open>logged\<close> collects the lines written with \<^verbatim>\<open>log.Println\<close> and
  \<^verbatim>\<open>log.Printf\<close>. The banner printed to standard output is not modelled.
\<close>

record TelosDaemon =
  socketPath :: string
  bpfObjPath :: string
  maps :: "bpf_maps option"
  links :: "BPFLinks option"
  listener :: bool
  logged :: "string list"

definition NewTelosDaemon :: "string \<Rightarrow> string \<Rightarrow> TelosDaemon" where
  "NewTelosDaemon sock obj =
     \<lparr>socketPath = sock, bpfObjPath = obj, maps = None, links = None,
      listener = False, logged = []\<rparr>"

definition log_Println :: "string \<Rightarrow> TelosDaemon \<Rightarrow> TelosDaemon" where
  "log_Println line d = d\<lparr>logged := logged d @ [line]\<rparr>"

text \<open>The UTF-8 bytes of the check mark and of the arrow used in the log lines.\<close>

definition check_mark :: string where
  "check_mark = [CHR 0xE2, CHR 0x9C, CHR 0x93]"

definition arrow :: string where
  "arrow = [CHR 0xE2, CHR 0x86, CHR 0x92]"

text \<open>
  \<^verbatim>\<open>loadBPF\<close>, in the three parts that attach the hooks. Each part returns the error
  (\<open>None\<close> for \<^verbatim>\<open>nil\<close>) and the daemon as it is at that point. Only the first part can
  return an error; the other two log a warning and go on.
\<close>

definition set_CheckExec :: "string \<Rightarrow> TelosDaemon \<Rightarrow> TelosDaemon" where
  "set_CheckExec l d = d\<lparr>links := map_option (\<lambda>ls. ls\<lparr>CheckExec := Some l\<rparr>) (links d)\<rparr>"

definition set_CheckFile :: "string \<Rightarrow> TelosDaemon \<Rightarrow> TelosDaemon" where
  "set_CheckFile l d = d\<lparr>links := map_option (\<lambda>ls. ls\<lparr>CheckFile := Some l\<rparr>) (links d)\<rparr>"

definition set_TaskAlloc :: "string \<Rightarrow> TelosDaemon \<Rightarrow> TelosDaemon" where
  "set_TaskAlloc l d = d\<lparr>links := map_option (\<lambda>ls. ls\<lparr>TaskAlloc := Some l\<rparr>) (links d)\<rparr>"

definition attach_check_exec :: "boot_env \<Rightarrow> Collection \<Rightarrow> TelosDaemon \<Rightarrow> string option \<times> TelosDaemon" where
  "attach_check_exec env coll d =
     (if ''telos_check_exec'' \<in> set (Programs coll)
      then (case AttachLSM env ''telos_check_exec'' of
              Some err \<Rightarrow> (Some (''attach check_exec: '' @ err), d)
            | None \<Rightarrow>
                (None, log_Println (''  '' @ arrow @ '' Attached lsm/bprm_check_security'')
                         (set_CheckExec ''telos_check_exec'' d)))
      else (None, d))"

definition attach_check_file :: "boot_env \<Rightarrow> Collection \<Rightarrow> TelosDaemon \<Rightarrow> TelosDaemon" where
  "attach_check_file env coll d =
     (if ''telos_check_file'' \<in> set (Programs coll)
      then (case AttachLSM env ''telos_check_file'' of
              Some err \<Rightarrow> log_Println (''Warning: Failed to attach check_file: '' @ err) d
            | None \<Rightarrow>
                log_Println (''  '' @ arrow @ '' Attached lsm/file_open'')
                  (set_CheckFile ''telos_check_file'' d))
      else d)"

definition attach_task_alloc :: "boot_env \<Rightarrow> Collection \<Rightarrow> TelosDaemon \<Rightarrow> TelosDaemon" where
  "attach_task_alloc env coll d =
     (if ''telos_task_alloc'' \<in> set (Programs coll)
      then (case AttachLSM env ''telos_task_alloc'' of
              Some err \<Rightarrow> log_Println (''Warning: Failed to attach task_alloc: '' @ err) d
            | None \<Rightarrow>
                log_Println (''  '' @ arrow @ '' Attached lsm/task_alloc'')
                  (set_TaskAlloc ''telos_task_alloc'' d))
      else d)"

definition loadBPF :: "boot_env \<Rightarrow> TelosDaemon \<Rightarrow> string option \<times> TelosDaemon" where
  "loadBPF env d =
     (case LoadCollectionSpec env of
        Some err \<Rightarrow> (Some (''load collection spec: '' @ err), d)
      | None \<Rightarrow>
          (case NewCollection env of
             Inl err \<Rightarrow> (Some (''new collection: '' @ err), d)
           | Inr coll \<Rightarrow>
               (let d1 = d\<lparr>maps := Some (Maps coll)\<rparr>;
                    d2 = (case Pin env of
                            Some err \<Rightarrow> log_Println (''Warning: Failed to pin process_map: '' @ err) d1
                          | None \<Rightarrow> d1);
                    d3 = d2\<lparr>links := Some \<lparr>CheckExec = None, CheckFile = None, TaskAlloc = None\<rparr>\<rparr>
                in case attach_check_exec env coll d3 of
                     (Some err, d4) \<Rightarrow> (Some err, d4)
                   | (None, d4) \<Rightarrow>
                       (None, attach_task_alloc env coll (attach_check_file env coll d4)))))"

text \<open>
  \<^verbatim>\<open>initConfig\<close> writes the default configuration at key 0. It runs only after
  \<^verbatim>\<open>loadBPF\<close> has stored the maps; on a daemon without maps Go dereferences nil, which the
  model reports as an error.
\<close>

definition initConfig :: "boot_env \<Rightarrow> TelosDaemon \<Rightarrow> string option \<times> TelosDaemon" where
  "initConfig env d =
     (case maps d of
        None \<Rightarrow> (Some ''invalid memory address or nil pointer dereference'', d)
      | Some m \<Rightarrow>
          (case ConfigMap_Put env of
             Some err \<Rightarrow> (Some err, d)
           | None \<Rightarrow>
               (None, d\<lparr>maps := Some (m\<lparr>config_map :=
                           Some \<lparr>max_taint_for_exec = TAINT_MEDIUM,
                                 max_taint_for_open = TAINT_HIGH, enabled = 1\<rparr>\<rparr>)\<rparr>)))"

definition startSocketServer :: "boot_env \<Rightarrow> TelosDaemon \<Rightarrow> string option \<times> TelosDaemon" where
  "startSocketServer env d =
     (case Listen env of
        Some err \<Rightarrow> (Some err, d)
      | None \<Rightarrow> (None, d\<lparr>listener := True\<rparr>))"

definition Start :: "boot_env \<Rightarrow> TelosDaemon \<Rightarrow> string option \<times> TelosDaemon" where
  "Start env d =
     (case RemoveMemlock env of
        Some err \<Rightarrow> (Some (''failed to remove memlock: '' @ err), d)
      | None \<Rightarrow>
          (let d1 = log_Println (check_mark @ '' Removed memory lock limits'') d
           in case MkdirAll env of
                Some err \<Rightarrow> (Some (''failed to create BPF pin path: '' @ err), d1)
              | None \<Rightarrow>
                  (case loadBPF env d1 of
                     (Some err, d2) \<Rightarrow> (Some (''failed to load BPF: '' @ err), d2)
                   | (None, d2) \<Rightarrow>
                       (let d3 = log_Println (check_mark @ '' eBPF program loaded and attached'') d2
                        in case initConfig env d3 of
                             (Some err, d4) \<Rightarrow> (Some (''failed to init config: '' @ err), d4)
                           | (None, d4) \<Rightarrow>
                               (let d5 = log_Println (check_mark @ '' Default config initialized'') d4
                                in case startSocketServer env d5 of
                                     (Some err, d6) \<Rightarrow>
                                       (Some (''failed to start socket server: '' @ err), d6)
                                   | (None, d6) \<Rightarrow>
                                       (None, log_Println
                                          (check_mark @ '' Listening on '' @ socketPath d6) d6))))))"

text \<open>
  \<^verbatim>\<open>main\<close>: either \<^verbatim>\<open>log.Fatal\<close> (the message is logged and the process exits with status
  1), or the daemon that serves connections while \<^verbatim>\<open>main\<close> blocks.
\<close>

datatype main_result = Fatal string | Serving TelosDaemon

definition main :: "boot_env \<Rightarrow> main_result" where
  "main env =
     (if Geteuid env \<noteq> 0
      then Fatal ''Telos Core requires root privileges to load eBPF''
      else (case Start env (NewTelosDaemon (flag_socket env) (flag_bpf_obj env)) of
              (Some err, d) \<Rightarrow> Fatal (''Failed to start: '' @ err)
            | (None, d) \<Rightarrow> Serving d))"

section \<open>Specification-level notions\<close>

text \<open>
  The definitions of this section follow the words of the specification, not the code:
  they are what the hooks are compared with.
\<close>

text \<open>
  The entry of the parent: the process-table entry of the calling task's parent, absent
  when the table has none (or when the hook has no current task to ask).
\<close>

definition spec_parent_entry :: "hook_ctx \<Rightarrow> bpf_maps \<Rightarrow> process_info_t option" where
  "spec_parent_entry ctx m =
     (case current_task ctx of
        None \<Rightarrow> None
      | Some task \<Rightarrow> process_map m (real_parent_tgid task))"

text \<open>
  The effective taint of the pre-execution gate: the caller's own entry first, else the
  parent's entry, else CLEAN.
\<close>

definition spec_effective_taint :: "hook_ctx \<Rightarrow> bpf_maps \<Rightarrow> u32" where
  "spec_effective_taint ctx m =
     (case process_map m (current_pid ctx) of
        Some info \<Rightarrow> taint_level info
      | None \<Rightarrow> (case spec_parent_entry ctx m of
                   Some parent_info \<Rightarrow> taint_level parent_info
                 | None \<Rightarrow> TAINT_CLEAN))"

text \<open>The exec threshold: \<open>Config.max_taint_for_exec\<close>, or MEDIUM when Config is absent.\<close>

definition spec_exec_threshold :: "bpf_maps \<Rightarrow> u32" where
  "spec_exec_threshold m =
     (case config_map m of Some c \<Rightarrow> max_taint_for_exec c | None \<Rightarrow> TAINT_MEDIUM)"

text \<open>
  Enforcement is enabled when \<open>Config.enabled\<close> is not 0; without a Config the hooks
  enforce. The verdict of a gate whose condition is met is DENY (\<open>- EPERM\<close>) under
  enforcement and ALLOW (0) otherwise.
\<close>

definition spec_enforcing :: "bpf_maps \<Rightarrow> bool" where
  "spec_enforcing m =
     (case config_map m of Some c \<Rightarrow> enabled c \<noteq> 0 | None \<Rightarrow> True)"

definition spec_verdict :: "bpf_maps \<Rightarrow> int" where
  "spec_verdict m = (if spec_enforcing m then - EPERM else 0)"

text \<open>
  The events a hook call has emitted: the records in the channel after the call that
  were not there before it. The event of a blocked action carries the caller's pid and
  command name, its taint, \<open>blocked = 1\<close> and the action.
\<close>

definition emitted :: "bpf_maps \<Rightarrow> bpf_maps \<Rightarrow> event_t list" where
  "emitted m m' = drop (length (submitted (events m))) (submitted (events m'))"

definition blocked_event :: "hook_ctx \<Rightarrow> u32 \<Rightarrow> string \<Rightarrow> event_t" where
  "blocked_event ctx taint act =
     \<lparr>event_pid = current_pid ctx, event_taint_level = taint, event_blocked = 1,
      event_comm = current_comm ctx, event_action = act\<rparr>"

text \<open>
  The name of the opened file as the gate can read it, and the sensitive-file pattern:
  a name that begins with \<open>id_\<close>.
\<close>

definition spec_file_name :: "struct_file \<Rightarrow> string option" where
  "spec_file_name f = (case f_dentry f of None \<Rightarrow> None | Some d \<Rightarrow> d_name d)"

definition spec_sensitive :: "string option \<Rightarrow> bool" where
  "spec_sensitive name = (case name of None \<Rightarrow> False | Some s \<Rightarrow> prefix ''id_'' s)"

text \<open>
  A malformed command message, in the words of the specification: a message that cannot
  be parsed, or a command with a missing or invalid required field. The fields are those
  of the command table (\<open>pid\<close> for \<open>UPDATE_TAINT\<close>, \<open>CLEAR_TAINT\<close> and \<open>REGISTER_AGENT\<close>,
  \<open>taint_level\<close> for \<open>UPDATE_TAINT\<close>, \<open>comm\<close> for \<open>REGISTER_AGENT\<close>) and their valid values
  those of the record layouts: a pid is a whole number that fits 32 bits, a taint level
  one of the five levels 0 to 4, a comm a string.
\<close>

definition spec_valid_pid :: "json option \<Rightarrow> bool" where
  "spec_valid_pid v =
     (case v of
        Some (JNumber x) \<Rightarrow> x = of_int \<lfloor>x\<rfloor> \<and> 0 \<le> x \<and> x < 2 ^ 32
      | _ \<Rightarrow> False)"

definition spec_valid_taint_level :: "json option \<Rightarrow> bool" where
  "spec_valid_taint_level v =
     (case v of
        Some (JNumber x) \<Rightarrow> x = 0 \<or> x = 1 \<or> x = 2 \<or> x = 3 \<or> x = 4
      | _ \<Rightarrow> False)"

definition spec_valid_comm :: "json option \<Rightarrow> bool" where
  "spec_valid_comm v = (case v of Some (JString s) \<Rightarrow> True | _ \<Rightarrow> False)"

definition spec_malformed :: "wire_line \<Rightarrow> bool" where
  "spec_malformed l =
     (case l of
        Undecodable err \<Rightarrow> True
      | Decoded cmd \<Rightarrow>
          (Command cmd \<in> {''UPDATE_TAINT'', ''CLEAR_TAINT'', ''REGISTER_AGENT''}
             \<and> \<not> spec_valid_pid (Data cmd ''pid''))
          \<or> (Command cmd = ''UPDATE_TAINT'' \<and> \<not> spec_valid_taint_level (Data cmd ''taint_level''))
          \<or> (Command cmd = ''REGISTER_AGENT'' \<and> \<not> spec_valid_comm (Data cmd ''comm'')))"

text \<open>
  The messages that fail validation in the daemon: a line that does not decode, or a
  command whose \<open>pid\<close> (\<open>UPDATE_TAINT\<close>, \<open>CLEAR_TAINT\<close>, \<open>REGISTER_AGENT\<close>) or \<open>taint_level\<close>
  (\<open>UPDATE_TAINT\<close>) is missing or not a JSON number. The validation failure for such a
  message names what was wrong.
\<close>

definition fails_validation :: "wire_line \<Rightarrow> bool" where
  "fails_validation l =
     (case l of
        Undecodable err \<Rightarrow> True
      | Decoded cmd \<Rightarrow>
          (Command cmd \<in> {''UPDATE_TAINT'', ''CLEAR_TAINT'', ''REGISTER_AGENT''}
             \<and> as_float64 (Data cmd ''pid'') = None)
          \<or> (Command cmd = ''UPDATE_TAINT'' \<and> as_float64 (Data cmd ''taint_level'') = None))"

definition validation_failure :: "wire_line \<Rightarrow> IPCResponse" where
  "validation_failure l =
     \<lparr>Success = False,
      Error = (case l of
                 Undecodable err \<Rightarrow> ''Invalid JSON: '' @ err
               | Decoded cmd \<Rightarrow>
                   if as_float64 (Data cmd ''pid'') = None then missing_or_invalid ''pid''
                   else missing_or_invalid ''taint_level''),
      RespData = NoData\<rparr>"

section \<open>Concrete inputs\<close>

text \<open>
  A task with pid 100 (and thread id 100) whose parent is pid 1, running \<open>curl\<close>; the
  default configuration written by \<^verbatim>\<open>initConfig\<close>; maps in which pid 100 is tracked at a
  given taint level and the event channel has room for a given number of records; a
  file with a given name.
\<close>

definition pid100_ctx :: hook_ctx where
  "pid100_ctx = \<lparr>current_pid_tgid = 429496729700,
                 current_task = Some \<lparr>real_parent_tgid = 1\<rparr>,
                 current_comm = ''curl''\<rparr>"

definition default_config :: telos_config_t where
  "default_config = \<lparr>max_taint_for_exec = TAINT_MEDIUM, max_taint_for_open = TAINT_HIGH, enabled = 1\<rparr>"

definition tainted_maps :: "u32 \<Rightarrow> nat \<Rightarrow> bpf_maps" where
  "tainted_maps level free =
     \<lparr>process_map = [100 \<mapsto> \<lparr>pid = 100, taint_level = level, is_sandboxed = 0, comm = zero_comm\<rparr>],
      config_map = Some default_config,
      events = \<lparr>submitted = [], room = free\<rparr>\<rparr>"

definition file_named :: "string \<Rightarrow> struct_file" where
  "file_named s = \<lparr>f_dentry = Some \<lparr>d_name = Some s\<rparr>\<rparr>"

text \<open>
  The commands of the protocol as a collaborator sends them, an unknown command, an
  \<open>UPDATE_TAINT\<close> whose pid is a string and a \<open>REGISTER_AGENT\<close> without \<open>comm\<close>; the record that \<open>UPDATE_TAINT\<close> stores; maps with
  an empty process table, with all 4096 slots taken by the pids below 4096, and with one
  sandboxed agent registered under a name.
\<close>

definition PING :: IPCCommand where
  "PING = \<lparr>Command = ''PING'', Data = Map.empty\<rparr>"

definition GET_STATE :: IPCCommand where
  "GET_STATE = \<lparr>Command = ''GET_STATE'', Data = Map.empty\<rparr>"

definition REGISTER_AGENT :: "real \<Rightarrow> string \<Rightarrow> IPCCommand" where
  "REGISTER_AGENT p c =
     \<lparr>Command = ''REGISTER_AGENT'', Data = [''pid'' \<mapsto> JNumber p, ''comm'' \<mapsto> JString c]\<rparr>"

definition UPDATE_TAINT :: "real \<Rightarrow> real \<Rightarrow> IPCCommand" where
  "UPDATE_TAINT p l =
     \<lparr>Command = ''UPDATE_TAINT'', Data = [''pid'' \<mapsto> JNumber p, ''taint_level'' \<mapsto> JNumber l]\<rparr>"

definition CLEAR_TAINT :: "real \<Rightarrow> IPCCommand" where
  "CLEAR_TAINT p = \<lparr>Command = ''CLEAR_TAINT'', Data = [''pid'' \<mapsto> JNumber p]\<rparr>"

definition FOO :: IPCCommand where
  "FOO = \<lparr>Command = ''FOO'', Data = Map.empty\<rparr>"

definition bad_pid_update :: IPCCommand where
  "bad_pid_update =
     \<lparr>Command = ''UPDATE_TAINT'',
      Data = [''pid'' \<mapsto> JString ''abc'', ''taint_level'' \<mapsto> JNumber 3]\<rparr>"

definition register_without_comm :: IPCCommand where
  "register_without_comm =
     \<lparr>Command = ''REGISTER_AGENT'', Data = [''pid'' \<mapsto> JNumber 100]\<rparr>"

definition taint_entry :: "u32 \<Rightarrow> u32 \<Rightarrow> process_info_t" where
  "taint_entry p l = \<lparr>pid = p, taint_level = l, is_sandboxed = 0, comm = zero_comm\<rparr>"

definition empty_maps :: bpf_maps where
  "empty_maps = \<lparr>process_map = Map.empty, config_map = Some default_config,
                 events = \<lparr>submitted = [], room = 1\<rparr>\<rparr>"

definition full_maps :: bpf_maps where
  "full_maps =
     \<lparr>process_map = (\<lambda>k. if k < 4096 then Some (taint_entry k TAINT_CLEAN) else None),
      config_map = Some default_config,
      events = \<lparr>submitted = [], room = 1\<rparr>\<rparr>"

definition sandboxed_agent_maps :: bpf_maps where
  "sandboxed_agent_maps =
     \<lparr>process_map = [100 \<mapsto> \<lparr>pid = 100, taint_level = TAINT_CLEAN, is_sandboxed = 1,
                                comm = copy_comm ''agent''\<rparr>],
      config_map = Some default_config,
      events = \<lparr>submitted = [], room = 1\<rparr>\<rparr>"

text \<open>
  Bootstrap environments in which the process runs as root, every step other than the
  attachment succeeds, the object file holds the three programs, and the attachment of
  one named program fails.
\<close>

definition fresh_collection :: Collection where
  "fresh_collection =
     \<lparr>Maps = \<lparr>process_map = Map.empty,
               config_map = Some \<lparr>max_taint_for_exec = 0, max_taint_for_open = 0, enabled = 0\<rparr>,
               events = \<lparr>submitted = [], room = 1\<rparr>\<rparr>,
      Programs = [''telos_check_exec'', ''telos_check_file'', ''telos_task_alloc'']\<rparr>"

definition boot_with :: "(string \<Rightarrow> string option) \<Rightarrow> boot_env" where
  "boot_with attach =
     \<lparr>flag_socket = ''/var/run/telos.sock'', flag_bpf_obj = ''bin/bpf_lsm.o'', Geteuid = 0,
      RemoveMemlock = None, MkdirAll = None, LoadCollectionSpec = None,
      NewCollection = Inr fresh_collection, Pin = None, AttachLSM = attach,
      ConfigMap_Put = None, Listen = None\<rparr>"

definition attach_fails_for :: "string \<Rightarrow> string \<Rightarrow> string option" where
  "attach_fails_for prog name = (if name = prog then Some ''operation not permitted'' else None)"

section \<open>Properties of the enforcement engine\<close>

subsection \<open>Helper lemmas\<close>

lemma current_pid_pid100: "current_pid pid100_ctx = 100"
  by (simp add: current_pid_def pid100_ctx_def)

lemma current_comm_pid100: "current_comm pid100_ctx = ''curl''"
  by (simp add: pid100_ctx_def)

lemma emitted_emit_event:
  "emitted m (emit_event ctx p t b a m) =
     (if room (events m) = 0 then []
      else [\<lparr>event_pid = p, event_taint_level = t, event_blocked = b,
             event_comm = current_comm ctx, event_action = a\<rparr>])"
  by (simp add: emitted_def emit_event_def bpf_ringbuf_reserve_def bpf_ringbuf_submit_def)

lemma telos_check_exec_unfold:
  "telos_check_exec ctx m =
     (if spec_effective_taint ctx m > spec_exec_threshold m
      then (spec_verdict m,
            emit_event ctx (current_pid ctx) (spec_effective_taint ctx m) 1 ''execve'' m)
      else (0, m))"
  by (simp add: telos_check_exec_def spec_effective_taint_def spec_exec_threshold_def
      spec_enforcing_def spec_verdict_def spec_parent_entry_def get_config_def Let_def
      split: option.splits)

subsection \<open>Pre-execution gate\<close>

text \<open>
  Claim C1, as amended. For every invocation of the pre-execution gate, with the
  effective taint resolved from the caller's entry, else the parent's entry, else CLEAN:
  if the effective taint exceeds the exec threshold (\<open>max_taint_for_exec\<close>, or MEDIUM
  without a Config), the verdict is DENY when enforcement is enabled and ALLOW when it
  is disabled, and the call emits exactly one event (the caller's pid, the effective
  taint, \<open>blocked = 1\<close>, action \<open>execve\<close>) when the event channel has room and no event
  when the channel is full; if the effective taint does not exceed the threshold, the
  verdict is ALLOW and nothing changes (no event).
\<close>

theorem telos_check_exec_gate:
  "(spec_effective_taint ctx m > spec_exec_threshold m \<longrightarrow>
      fst (telos_check_exec ctx m) = (if spec_enforcing m then - EPERM else 0) \<and>
      emitted m (snd (telos_check_exec ctx m)) =
        (if room (events m) = 0 then []
         else [blocked_event ctx (spec_effective_taint ctx m) ''execve''])) \<and>
   (\<not> spec_effective_taint ctx m > spec_exec_threshold m \<longrightarrow>
      telos_check_exec ctx m = (0, m))"
  by (simp add: telos_check_exec_unfold emitted_emit_event spec_verdict_def blocked_event_def)

lemma tainted_maps_eval:
  "spec_effective_taint pid100_ctx (tainted_maps level free) = level"
  "spec_exec_threshold (tainted_maps level free) = 2"
  "spec_enforcing (tainted_maps level free)"
  "room (events (tainted_maps level free)) = free"
  by (simp_all add: spec_effective_taint_def spec_exec_threshold_def spec_enforcing_def
      tainted_maps_def default_config_def current_pid_pid100 TAINT_MEDIUM_def)

text \<open>
  Witness for C1: pid 100 at HIGH under the default configuration is denied and one
  event is emitted; the same pid at LOW is allowed and the maps are unchanged.
\<close>

theorem telos_check_exec_gate_witness:
  "fst (telos_check_exec pid100_ctx (tainted_maps TAINT_HIGH 1)) = - 1 \<and>
   emitted (tainted_maps TAINT_HIGH 1) (snd (telos_check_exec pid100_ctx (tainted_maps TAINT_HIGH 1))) =
     [\<lparr>event_pid = 100, event_taint_level = 3, event_blocked = 1,
       event_comm = ''curl'', event_action = ''execve''\<rparr>] \<and>
   telos_check_exec pid100_ctx (tainted_maps TAINT_LOW 1) = (0, tainted_maps TAINT_LOW 1)"
  using telos_check_exec_gate [where ctx = pid100_ctx and m = "tainted_maps TAINT_HIGH 1"]
        telos_check_exec_gate [where ctx = pid100_ctx and m = "tainted_maps TAINT_LOW 1"]
  by (simp add: tainted_maps_eval TAINT_HIGH_def TAINT_LOW_def EPERM_def blocked_event_def
      current_pid_pid100 current_comm_pid100)

text \<open>
  Counterexample to C1 as stated: pid 100 at HIGH exceeds the threshold MEDIUM, yet with
  a full event channel the call emits no event.
\<close>

theorem exec_event_dropped_counterexample:
  "spec_effective_taint pid100_ctx (tainted_maps TAINT_HIGH 0)
     > spec_exec_threshold (tainted_maps TAINT_HIGH 0) \<and>
   emitted (tainted_maps TAINT_HIGH 0)
     (snd (telos_check_exec pid100_ctx (tainted_maps TAINT_HIGH 0))) = []"
  by (simp add: telos_check_exec_unfold emitted_emit_event tainted_maps_eval TAINT_HIGH_def)

subsection \<open>File-open gate\<close>

text \<open>The three byte comparisons on the buffer are the prefix test on the name.\<close>

lemma name_test_prefix:
  "((take 31 s @ [CHR 0x00]) ! 0 = CHR ''i'' \<and> (take 31 s @ [CHR 0x00]) ! 1 = CHR ''d''
      \<and> (take 31 s @ [CHR 0x00]) ! 2 = CHR ''_'') = prefix ''id_'' s"
proof (cases s)
  case Nil
  then show ?thesis by simp
next
  case (Cons a s1)
  note s = this
  show ?thesis
  proof (cases s1)
    case Nil
    with s show ?thesis by simp
  next
    case (Cons b s2)
    note s1 = this
    show ?thesis
    proof (cases s2)
      case Nil
      with s s1 show ?thesis by simp
    next
      case (Cons c s3)
      with s s1 show ?thesis by auto
    qed
  qed
qed

lemma name_test_prefix_Suc:
  "((take 31 s @ [CHR 0x00]) ! 0 = CHR ''i'' \<and> (take 31 s @ [CHR 0x00]) ! Suc 0 = CHR ''d''
      \<and> (take 31 s @ [CHR 0x00]) ! 2 = CHR ''_'') = prefix ''id_'' s"
  using name_test_prefix [of s] by simp

lemma telos_check_file_unfold:
  "telos_check_file ctx f m =
     (case process_map m (current_pid ctx) of
        None \<Rightarrow> (0, m)
      | Some info \<Rightarrow>
          if TAINT_CRITICAL \<le> taint_level info \<and> spec_sensitive (spec_file_name f)
          then (spec_verdict m, emit_event ctx (current_pid ctx) (taint_level info) 1 ''open'' m)
          else (0, m))"
  by (simp add: telos_check_file_def spec_sensitive_def spec_file_name_def spec_verdict_def
      spec_enforcing_def get_config_def bpf_probe_read_kernel_str_def Let_def name_test_prefix_Suc
      split: option.splits)

text \<open>
  Claim C2, as amended. For every invocation of the file-open gate: a caller without a
  direct entry is allowed (the parent is not consulted); a caller whose taint is below
  CRITICAL is allowed; for a caller at CRITICAL opening a file whose name begins with
  \<open>id_\<close>, the verdict is DENY when enforcement is enabled and ALLOW otherwise, and the
  call emits exactly one event (\<open>blocked = 1\<close>, action \<open>open\<close>) when the event channel has
  room and no event when the channel is full; a caller at CRITICAL opening a file whose
  name does not match is allowed with no event. Allowed without event means that the
  maps are returned unchanged.
\<close>

theorem telos_check_file_gate:
  "(process_map m (current_pid ctx) = None \<longrightarrow> telos_check_file ctx f m = (0, m)) \<and>
   (process_map m (current_pid ctx) = Some info \<longrightarrow>
      (taint_level info < TAINT_CRITICAL \<longrightarrow> telos_check_file ctx f m = (0, m)) \<and>
      (taint_level info = TAINT_CRITICAL \<and> spec_sensitive (spec_file_name f) \<longrightarrow>
         fst (telos_check_file ctx f m) = (if spec_enforcing m then - EPERM else 0) \<and>
         emitted m (snd (telos_check_file ctx f m)) =
           (if room (events m) = 0 then [] else [blocked_event ctx TAINT_CRITICAL ''open''])) \<and>
      (taint_level info = TAINT_CRITICAL \<and> \<not> spec_sensitive (spec_file_name f) \<longrightarrow>
         telos_check_file ctx f m = (0, m)))"
  by (auto simp add: telos_check_file_unfold emitted_emit_event spec_verdict_def blocked_event_def)

lemma tainted_maps_lookup:
  "process_map (tainted_maps level free) 100 =
     Some \<lparr>pid = 100, taint_level = level, is_sandboxed = 0, comm = zero_comm\<rparr>"
  by (simp add: tainted_maps_def)

lemma file_named_sensitive:
  "spec_sensitive (spec_file_name (file_named s)) = prefix ''id_'' s"
  by (simp add: spec_sensitive_def spec_file_name_def file_named_def)

text \<open>
  Witness for C2: pid 100 at CRITICAL is denied \<open>id_rsa\<close> with one event and allowed
  \<open>notes.txt\<close>; at HIGH it is allowed \<open>id_rsa\<close>.
\<close>

theorem telos_check_file_gate_witness:
  "fst (telos_check_file pid100_ctx (file_named ''id_rsa'') (tainted_maps TAINT_CRITICAL 1)) = - 1 \<and>
   emitted (tainted_maps TAINT_CRITICAL 1)
     (snd (telos_check_file pid100_ctx (file_named ''id_rsa'') (tainted_maps TAINT_CRITICAL 1))) =
     [\<lparr>event_pid = 100, event_taint_level = 4, event_blocked = 1,
       event_comm = ''curl'', event_action = ''open''\<rparr>] \<and>
   telos_check_file pid100_ctx (file_named ''notes.txt'') (tainted_maps TAINT_CRITICAL 1) =
     (0, tainted_maps TAINT_CRITICAL 1) \<and>
   telos_check_file pid100_ctx (file_named ''id_rsa'') (tainted_maps TAINT_HIGH 1) =
     (0, tainted_maps TAINT_HIGH 1)"
  using telos_check_file_gate [where ctx = pid100_ctx and m = "tainted_maps TAINT_CRITICAL 1"
          and f = "file_named ''id_rsa''"
          and info = "\<lparr>pid = 100, taint_level = TAINT_CRITICAL, is_sandboxed = 0, comm = zero_comm\<rparr>"]
        telos_check_file_gate [where ctx = pid100_ctx and m = "tainted_maps TAINT_CRITICAL 1"
          and f = "file_named ''notes.txt''"
          and info = "\<lparr>pid = 100, taint_level = TAINT_CRITICAL, is_sandboxed = 0, comm = zero_comm\<rparr>"]
        telos_check_file_gate [where ctx = pid100_ctx and m = "tainted_maps TAINT_HIGH 1"
          and f = "file_named ''id_rsa''"
          and info = "\<lparr>pid = 100, taint_level = TAINT_HIGH, is_sandboxed = 0, comm = zero_comm\<rparr>"]
  by (simp add: tainted_maps_lookup tainted_maps_eval file_named_sensitive
      TAINT_CRITICAL_def TAINT_HIGH_def EPERM_def blocked_event_def
      current_pid_pid100 current_comm_pid100)

text \<open>
  Counterexample to C2 as stated: pid 100 at CRITICAL opens \<open>id_rsa\<close>, yet with a full
  event channel the call emits no event.
\<close>

theorem open_event_dropped_counterexample:
  "process_map (tainted_maps TAINT_CRITICAL 0) (current_pid pid100_ctx) =
     Some \<lparr>pid = 100, taint_level = TAINT_CRITICAL, is_sandboxed = 0, comm = zero_comm\<rparr> \<and>
   prefix ''id_'' ''id_rsa'' \<and>
   emitted (tainted_maps TAINT_CRITICAL 0)
     (snd (telos_check_file pid100_ctx (file_named ''id_rsa'') (tainted_maps TAINT_CRITICAL 0))) = []"
  by (simp add: telos_check_file_unfold emitted_emit_event tainted_maps_lookup tainted_maps_eval
      file_named_sensitive current_pid_pid100)

text \<open>
  Claim C9. The verdict and the events of the file-open gate do not depend on
  \<open>max_taint_for_open\<close>: two configurations that differ only in this field give, on the
  same maps, caller and file, the same verdict and the same event channel.
\<close>

theorem telos_check_file_ignores_max_taint_for_open:
  "fst (telos_check_file ctx f (m\<lparr>config_map := Some (c\<lparr>max_taint_for_open := a\<rparr>)\<rparr>)) =
   fst (telos_check_file ctx f (m\<lparr>config_map := Some (c\<lparr>max_taint_for_open := b\<rparr>)\<rparr>)) \<and>
   events (snd (telos_check_file ctx f (m\<lparr>config_map := Some (c\<lparr>max_taint_for_open := a\<rparr>)\<rparr>))) =
   events (snd (telos_check_file ctx f (m\<lparr>config_map := Some (c\<lparr>max_taint_for_open := b\<rparr>)\<rparr>)))"
  by (simp add: telos_check_file_unfold spec_verdict_def spec_enforcing_def emit_event_def
      bpf_ringbuf_reserve_def split: option.splits)

section \<open>Properties of the command protocol\<close>

subsection \<open>Helper lemmas\<close>

lemma uint32_small:
  "uint32 100 = 100" "uint32 3 = 3" "uint32 1 = 1" "uint32 4 = 4" "uint32 99 = 99"
  by (simp_all add: uint32_def)

lemma uint32_5000: "uint32 5000 = 5000"
  by (simp add: uint32_def)

lemma handle_UPDATE_TAINT:
  "handleCommand m (UPDATE_TAINT p l) =
     (case ProcessMap_Put m (uint32 p) (taint_entry (uint32 p) (uint32 l)) of
        Inl err \<Rightarrow> (failure (err_Error err), m)
      | Inr m' \<Rightarrow> (success, m'))"
  by (simp add: handleCommand_def UPDATE_TAINT_def cmdUpdateTaint_def as_float64_def
      taint_entry_def)

lemma handle_CLEAR_TAINT:
  "handleCommand m (CLEAR_TAINT p) =
     (success, m\<lparr>process_map := (process_map m)(uint32 p := None)\<rparr>)"
  by (simp add: handleCommand_def CLEAR_TAINT_def cmdClearTaint_def as_float64_def
      ProcessMap_Delete_def fun_upd_idem)

lemma handle_REGISTER_AGENT:
  "handleCommand m (REGISTER_AGENT p c) =
     (case ProcessMap_Put m (uint32 p)
             \<lparr>pid = uint32 p, taint_level = TAINT_CLEAN, is_sandboxed = 0,
              comm = (if c \<noteq> [] then copy_comm c else zero_comm)\<rparr> of
        Inl err \<Rightarrow> (failure (err_Error err), m)
      | Inr m' \<Rightarrow> (success, m'))"
  by (simp add: handleCommand_def REGISTER_AGENT_def cmdRegisterAgent_def as_float64_def
      as_string_def)

lemma handle_GET_STATE: "handleCommand m GET_STATE = cmdGetState m"
  by (simp add: handleCommand_def GET_STATE_def)

lemma handle_PING:
  "handleCommand m PING = (\<lparr>Success = True, Error = [], RespData = DataString ''pong''\<rparr>, m)"
  by (simp add: handleCommand_def PING_def)

lemma Put_present:
  "process_map m k \<noteq> None \<Longrightarrow>
     ProcessMap_Put m k v = Inr (m\<lparr>process_map := (process_map m)(k \<mapsto> v)\<rparr>)"
  by (simp add: ProcessMap_Put_def)

lemma Put_room:
  "card (dom (process_map m)) < process_map_max_entries \<Longrightarrow>
     ProcessMap_Put m k v = Inr (m\<lparr>process_map := (process_map m)(k \<mapsto> v)\<rparr>)"
  by (simp add: ProcessMap_Put_def)

lemma Put_cases:
  "ProcessMap_Put m k v = Inr (m\<lparr>process_map := (process_map m)(k \<mapsto> v)\<rparr>) \<or>
   (ProcessMap_Put m k v = Inl ErrMapFull \<and> process_map m k = None
      \<and> process_map_max_entries \<le> card (dom (process_map m)))"
  by (simp add: ProcessMap_Put_def)

lemma err_Error_nonempty: "err_Error e \<noteq> []"
  by (cases e) (simp_all add: err_Error_def)

lemma handleConnection_Decoded:
  "handleCommand m cmd = (resp, m1) \<Longrightarrow> handleConnection m1 rest = (resps, m') \<Longrightarrow>
     handleConnection m (Decoded cmd # rest) = (resp # resps, m')"
  by simp

lemma current_task_pid100: "current_task pid100_ctx = Some \<lparr>real_parent_tgid = 1\<rparr>"
  by (simp add: pid100_ctx_def)

lemma process_map_empty_maps: "process_map empty_maps = Map.empty"
  by (simp add: empty_maps_def)

lemma clean_never_exceeds: "\<not> TAINT_CLEAN > (t::u32)"
  by (simp add: TAINT_CLEAN_def)

lemma exec_untracked_allowed:
  "process_map m (current_pid ctx) = None \<Longrightarrow> spec_parent_entry ctx m = None \<Longrightarrow>
     telos_check_exec ctx m = (0, m)"
  by (simp add: telos_check_exec_unfold spec_effective_taint_def clean_never_exceeds)

lemma update_twice:
  "snd (handleCommand (snd (handleCommand m (UPDATE_TAINT p l1))) (UPDATE_TAINT p l2)) =
   snd (handleCommand m (UPDATE_TAINT p l2))"
proof -
  let ?k = "uint32 p"
  let ?v1 = "taint_entry ?k (uint32 l1)"
  let ?v2 = "taint_entry ?k (uint32 l2)"
  show ?thesis
  proof (cases "process_map m ?k = None \<and> process_map_max_entries \<le> card (dom (process_map m))")
    case True
    then have "ProcessMap_Put m ?k ?v1 = Inl ErrMapFull" "ProcessMap_Put m ?k ?v2 = Inl ErrMapFull"
      by (simp_all add: ProcessMap_Put_def)
    then show ?thesis
      by (simp add: handle_UPDATE_TAINT)
  next
    case False
    then have first: "ProcessMap_Put m ?k ?v1 = Inr (m\<lparr>process_map := (process_map m)(?k \<mapsto> ?v1)\<rparr>)"
      and last: "ProcessMap_Put m ?k ?v2 = Inr (m\<lparr>process_map := (process_map m)(?k \<mapsto> ?v2)\<rparr>)"
      by (simp_all add: ProcessMap_Put_def)
    show ?thesis
      by (simp add: handle_UPDATE_TAINT first last Put_present)
  qed
qed

text \<open>The table of \<open>full_maps\<close> holds 4096 keys, so a put of a new key fails.\<close>

lemma unat_of_nat_small: "n < 4096 \<Longrightarrow> unat (of_nat n :: u32) = n"
  by (simp add: unat_of_nat take_bit_nat_eq_self)

lemma low_pids_image: "{k::u32. k < 4096} = of_nat ` {..<4096::nat}"
proof (intro equalityI subsetI)
  fix k :: u32
  assume "k \<in> {k. k < 4096}"
  then have "unat k < 4096"
    by (simp add: word_less_nat_alt)
  moreover have "k = of_nat (unat k)"
    by simp
  ultimately show "k \<in> of_nat ` {..<4096::nat}"
    by blast
next
  fix k :: u32
  assume "k \<in> of_nat ` {..<4096::nat}"
  then obtain n where n: "n < 4096" "k = of_nat n"
    by auto
  then have "unat k = n"
    by (simp add: unat_of_nat_small)
  with n show "k \<in> {k. k < 4096}"
    by (simp add: word_less_nat_alt)
qed

lemma low_pids_inj: "inj_on (of_nat :: nat \<Rightarrow> u32) {..<4096}"
proof (rule inj_onI)
  fix a b :: nat
  assume a: "a \<in> {..<4096}" and b: "b \<in> {..<4096}"
    and eq: "(of_nat a :: u32) = of_nat b"
  from a have "a = unat (of_nat a :: u32)"
    by (simp add: unat_of_nat_small)
  also from eq have "\<dots> = unat (of_nat b :: u32)"
    by (rule arg_cong)
  also from b have "\<dots> = b"
    by (simp add: unat_of_nat_small)
  finally show "a = b" .
qed

lemma card_low_pids: "card {k::u32. k < 4096} = 4096"
  by (simp add: low_pids_image card_image [OF low_pids_inj])

lemma full_maps_full:
  "process_map full_maps 5000 = None"
  "process_map_max_entries \<le> card (dom (process_map full_maps))"
proof -
  show "process_map full_maps 5000 = None"
    by (simp add: full_maps_def)
  have "dom (process_map full_maps) = {k. k < 4096}"
    by (auto simp add: full_maps_def dom_def)
  then show "process_map_max_entries \<le> card (dom (process_map full_maps))"
    by (simp add: card_low_pids process_map_max_entries_def)
qed

lemma Put_full_maps: "ProcessMap_Put full_maps 5000 v = Inl ErrMapFull"
  by (simp add: ProcessMap_Put_def full_maps_full)

lemma malformed_command:
  assumes "fails_validation (Decoded cmd)"
  shows "handleCommand m cmd = (validation_failure (Decoded cmd), m)"
proof -
  from assms consider
      (pid) "Command cmd \<in> {''UPDATE_TAINT'', ''CLEAR_TAINT'', ''REGISTER_AGENT''}"
            "as_float64 (Data cmd ''pid'') = None"
    | (level) "Command cmd = ''UPDATE_TAINT''" "as_float64 (Data cmd ''pid'') \<noteq> None"
              "as_float64 (Data cmd ''taint_level'') = None"
    by (auto simp add: fails_validation_def)
  then show ?thesis
  proof cases
    case pid
    then show ?thesis
      by (auto simp add: handleCommand_def cmdUpdateTaint_def cmdClearTaint_def
          cmdRegisterAgent_def validation_failure_def failure_def)
  next
    case level
    then show ?thesis
      by (auto simp add: handleCommand_def cmdUpdateTaint_def validation_failure_def
          failure_def)
  qed
qed

subsection \<open>Taint updates and clearing\<close>

text \<open>
  Claim C3. Taint updates to the same pid are last-write-wins with no merge. On a
  process table that tracks pid 100 or has a free slot, the commands
  \<open>REGISTER_AGENT(100, "agent")\<close>, \<open>UPDATE_TAINT(100, HIGH)\<close>, \<open>UPDATE_TAINT(100, LOW)\<close> all
  succeed and a following \<open>GET_STATE\<close> reports pid 100 with taint level LOW. For every
  pid and every two levels, two updates in a row leave the maps as the second update
  alone does.
\<close>

theorem taint_last_write_wins:
  assumes "process_map m 100 \<noteq> None \<or> card (dom (process_map m)) < process_map_max_entries"
  shows "(\<exists>st m'.
           handleConnection m
             [Decoded (REGISTER_AGENT 100 ''agent''), Decoded (UPDATE_TAINT 100 3),
              Decoded (UPDATE_TAINT 100 1), Decoded GET_STATE] =
             ([success, success, success, \<lparr>Success = True, Error = [], RespData = DataState st\<rparr>], m')
           \<and> processes st 100 = Some [''taint_level'' \<mapsto> TAINT_LOW, ''sandboxed'' \<mapsto> 0]) \<and>
         snd (handleCommand (snd (handleCommand m (UPDATE_TAINT p l1))) (UPDATE_TAINT p l2)) =
         snd (handleCommand m (UPDATE_TAINT p l2))"
proof -
  let ?reg = "\<lparr>pid = 100, taint_level = TAINT_CLEAN, is_sandboxed = 0, comm = copy_comm ''agent''\<rparr>"
  let ?m1 = "m\<lparr>process_map := (process_map m)(100 \<mapsto> ?reg)\<rparr>"
  let ?m2 = "?m1\<lparr>process_map := (process_map ?m1)(100 \<mapsto> taint_entry 100 3)\<rparr>"
  let ?m3 = "?m2\<lparr>process_map := (process_map ?m2)(100 \<mapsto> taint_entry 100 1)\<rparr>"
  let ?st = "\<lparr>processes =
                (\<lambda>key. case process_map ?m3 key of
                          None \<Rightarrow> None
                        | Some v \<Rightarrow> Some [''taint_level'' \<mapsto> taint_level v,
                                          ''sandboxed'' \<mapsto> is_sandboxed v]),
              count = card (dom (process_map ?m3))\<rparr>"
  have r1: "handleCommand m (REGISTER_AGENT 100 ''agent'') = (success, ?m1)"
    using assms by (auto simp add: handle_REGISTER_AGENT uint32_small Put_present Put_room)
  have r2: "handleCommand ?m1 (UPDATE_TAINT 100 3) = (success, ?m2)"
    by (simp add: handle_UPDATE_TAINT uint32_small Put_present)
  have r3: "handleCommand ?m2 (UPDATE_TAINT 100 1) = (success, ?m3)"
    by (simp add: handle_UPDATE_TAINT uint32_small Put_present)
  have r4: "handleCommand ?m3 GET_STATE =
              (\<lparr>Success = True, Error = [], RespData = DataState ?st\<rparr>, ?m3)"
    by (simp only: handle_GET_STATE cmdGetState_def)
  have r5: "handleConnection ?m3 [] = ([], ?m3)"
    by (simp only: handleConnection.simps)
  note run = handleConnection_Decoded [OF r1 handleConnection_Decoded [OF r2
               handleConnection_Decoded [OF r3 handleConnection_Decoded [OF r4 r5]]]]
  have reported: "processes ?st 100 = Some [''taint_level'' \<mapsto> TAINT_LOW, ''sandboxed'' \<mapsto> 0]"
    by (simp add: taint_entry_def TAINT_LOW_def)
  from run reported
  have "\<exists>st m'.
          handleConnection m
            [Decoded (REGISTER_AGENT 100 ''agent''), Decoded (UPDATE_TAINT 100 3),
             Decoded (UPDATE_TAINT 100 1), Decoded GET_STATE] =
            ([success, success, success, \<lparr>Success = True, Error = [], RespData = DataState st\<rparr>], m')
          \<and> processes st 100 = Some [''taint_level'' \<mapsto> TAINT_LOW, ''sandboxed'' \<mapsto> 0]"
    by blast
  then show ?thesis
    using update_twice [of m p l1 l2] by (rule conjI)
qed

text \<open>Witness for C3: the sequence on the empty process table.\<close>

theorem taint_last_write_wins_witness:
  "\<exists>st m'.
     handleConnection empty_maps
       [Decoded (REGISTER_AGENT 100 ''agent''), Decoded (UPDATE_TAINT 100 3),
        Decoded (UPDATE_TAINT 100 1), Decoded GET_STATE] =
       ([success, success, success, \<lparr>Success = True, Error = [], RespData = DataState st\<rparr>], m')
     \<and> processes st 100 = Some [''taint_level'' \<mapsto> TAINT_LOW, ''sandboxed'' \<mapsto> 0]"
proof -
  have room: "process_map empty_maps 100 \<noteq> None
                \<or> card (dom (process_map empty_maps)) < process_map_max_entries"
    by (simp add: empty_maps_def process_map_max_entries_def)
  show ?thesis by (rule conjunct1 [OF taint_last_write_wins [OF room]])
qed

text \<open>
  Claim C4. \<open>CLEAR_TAINT\<close> answers with success for every pid, whether or not the
  table has an entry for it. After \<open>UPDATE_TAINT(pid, CRITICAL)\<close> and \<open>CLEAR_TAINT(pid)\<close> the
  pid is untracked, and the pre-execution gate, invoked for that pid while its parent
  is not tracked, returns ALLOW.
\<close>

theorem clear_taint_idempotent_success:
  "fst (handleCommand m (CLEAR_TAINT x)) = success \<and>
   process_map (snd (handleCommand (snd (handleCommand m (UPDATE_TAINT x 4))) (CLEAR_TAINT x)))
     (uint32 x) = None \<and>
   (current_pid ctx = uint32 x \<and>
    spec_parent_entry ctx
      (snd (handleCommand (snd (handleCommand m (UPDATE_TAINT x 4))) (CLEAR_TAINT x))) = None
    \<longrightarrow> fst (telos_check_exec ctx
              (snd (handleCommand (snd (handleCommand m (UPDATE_TAINT x 4))) (CLEAR_TAINT x)))) = 0)"
proof -
  let ?m2 = "snd (handleCommand (snd (handleCommand m (UPDATE_TAINT x 4))) (CLEAR_TAINT x))"
  have untracked: "process_map ?m2 (uint32 x) = None"
    by (simp add: handle_CLEAR_TAINT)
  have "telos_check_exec ctx ?m2 = (0, ?m2)"
    if "current_pid ctx = uint32 x" and "spec_parent_entry ctx ?m2 = None"
    using that untracked by (simp add: exec_untracked_allowed)
  then show ?thesis
    using untracked by (simp add: handle_CLEAR_TAINT)
qed

text \<open>Witness for C4: pid 100 on the empty table, with the untracked parent pid 1.\<close>

theorem clear_taint_idempotent_success_witness:
  "fst (handleCommand empty_maps (CLEAR_TAINT 100)) = success \<and>
   process_map (snd (handleCommand (snd (handleCommand empty_maps (UPDATE_TAINT 100 4)))
                       (CLEAR_TAINT 100))) 100 = None \<and>
   fst (telos_check_exec pid100_ctx
          (snd (handleCommand (snd (handleCommand empty_maps (UPDATE_TAINT 100 4)))
                  (CLEAR_TAINT 100)))) = 0"
proof -
  let ?m2 = "snd (handleCommand (snd (handleCommand empty_maps (UPDATE_TAINT 100 4))) (CLEAR_TAINT 100))"
  have m2: "?m2 = empty_maps"
    by (simp add: handle_CLEAR_TAINT handle_UPDATE_TAINT uint32_small Put_room empty_maps_def
        process_map_max_entries_def)
  have pre: "current_pid pid100_ctx = uint32 100 \<and> spec_parent_entry pid100_ctx ?m2 = None"
    unfolding m2
    by (simp add: current_pid_pid100 uint32_small spec_parent_entry_def current_task_pid100
        process_map_empty_maps)
  show ?thesis
    using clear_taint_idempotent_success [where m = empty_maps and x = 100 and ctx = pid100_ctx] pre
    by (simp add: uint32_small)
qed

text \<open>
  Claim C10. \<open>UPDATE_TAINT\<close> replaces the whole record: after a successful
  \<open>UPDATE_TAINT(pid, level)\<close> the stored entry has \<open>comm\<close> all zero and \<open>is_sandboxed = 0\<close>,
  and \<open>pid\<close> and \<open>taint_level\<close> carry the new values, whatever the entry held before.
\<close>

theorem update_taint_replaces_record:
  "Success (fst (handleCommand m (UPDATE_TAINT x l))) \<Longrightarrow>
     process_map (snd (handleCommand m (UPDATE_TAINT x l))) (uint32 x) =
       Some \<lparr>pid = uint32 x, taint_level = uint32 l, is_sandboxed = 0,
             comm = replicate 16 (CHR 0x00)\<rparr>"
  using Put_cases [of m "uint32 x" "taint_entry (uint32 x) (uint32 l)"]
  by (auto simp add: handle_UPDATE_TAINT taint_entry_def zero_comm_def failure_def)

text \<open>
  Witness for C10: an entry with \<open>comm = "agent"\<close> and \<open>is_sandboxed = 1\<close> loses both on
  \<open>UPDATE_TAINT(100, HIGH)\<close>.
\<close>

theorem update_taint_replaces_record_witness:
  "comm (the (process_map sandboxed_agent_maps 100)) = ''agent'' @ replicate 11 (CHR 0x00) \<and>
   is_sandboxed (the (process_map sandboxed_agent_maps 100)) = 1 \<and>
   Success (fst (handleCommand sandboxed_agent_maps (UPDATE_TAINT 100 3))) \<and>
   process_map (snd (handleCommand sandboxed_agent_maps (UPDATE_TAINT 100 3))) 100 =
     Some \<lparr>pid = 100, taint_level = 3, is_sandboxed = 0, comm = replicate 16 (CHR 0x00)\<rparr>"
proof -
  have ok: "Success (fst (handleCommand sandboxed_agent_maps (UPDATE_TAINT 100 3)))"
    by (simp add: handle_UPDATE_TAINT uint32_small Put_present sandboxed_agent_maps_def success_def)
  have old: "comm (the (process_map sandboxed_agent_maps 100)) = ''agent'' @ replicate 11 (CHR 0x00)
               \<and> is_sandboxed (the (process_map sandboxed_agent_maps 100)) = 1"
    by (simp add: sandboxed_agent_maps_def copy_comm_def zero_comm_def)
  show ?thesis
    using update_taint_replaces_record [OF ok] ok old by (simp add: uint32_small)
qed

subsection \<open>Failures\<close>

text \<open>
  Claim C5, as amended. For \<open>UPDATE_TAINT\<close> and \<open>REGISTER_AGENT\<close>, a failure of the
  underlying put is surfaced to the caller as a failure response (\<open>Success = False\<close> with
  the error's text, which is not empty) and the maps are unchanged; \<open>CLEAR_TAINT\<close>
  answers with success when the underlying delete fails because the key does not exist.
\<close>

theorem put_failure_surfaced:
  "(ProcessMap_Put m (uint32 x) (taint_entry (uint32 x) (uint32 l)) = Inl e \<longrightarrow>
      handleCommand m (UPDATE_TAINT x l) =
        (\<lparr>Success = False, Error = err_Error e, RespData = NoData\<rparr>, m)) \<and>
   (ProcessMap_Put m (uint32 x)
        \<lparr>pid = uint32 x, taint_level = TAINT_CLEAN, is_sandboxed = 0,
         comm = (if c \<noteq> [] then copy_comm c else zero_comm)\<rparr> = Inl e \<longrightarrow>
      handleCommand m (REGISTER_AGENT x c) =
        (\<lparr>Success = False, Error = err_Error e, RespData = NoData\<rparr>, m)) \<and>
   (ProcessMap_Delete m (uint32 x) = Inl ErrKeyNotExist \<longrightarrow>
      handleCommand m (CLEAR_TAINT x) =
        (\<lparr>Success = True, Error = [], RespData = NoData\<rparr>, m)) \<and>
   err_Error e \<noteq> []"
  by (simp add: handle_UPDATE_TAINT handle_REGISTER_AGENT handle_CLEAR_TAINT failure_def
      success_def ProcessMap_Delete_def fun_upd_idem err_Error_nonempty)

text \<open>
  Witness for C5: on the full table, \<open>UPDATE_TAINT\<close> and \<open>REGISTER_AGENT\<close> for the new pid
  5000 fail; on the empty table \<open>CLEAR_TAINT(100)\<close> succeeds.
\<close>

theorem put_failure_surfaced_witness:
  "handleCommand full_maps (UPDATE_TAINT 5000 3) =
     (\<lparr>Success = False, Error = ''update: key too big for map: argument list too long'',
       RespData = NoData\<rparr>, full_maps) \<and>
   handleCommand full_maps (REGISTER_AGENT 5000 ''agent'') =
     (\<lparr>Success = False, Error = ''update: key too big for map: argument list too long'',
       RespData = NoData\<rparr>, full_maps) \<and>
   handleCommand empty_maps (CLEAR_TAINT 100) =
     (\<lparr>Success = True, Error = [], RespData = NoData\<rparr>, empty_maps)"
proof -
  have del: "ProcessMap_Delete empty_maps (uint32 100) = Inl ErrKeyNotExist"
    by (simp add: ProcessMap_Delete_def process_map_empty_maps)
  show ?thesis
    using put_failure_surfaced [where m = full_maps and x = 5000 and l = 3 and c = "''agent''"
            and e = ErrMapFull]
          put_failure_surfaced [where m = empty_maps and x = 100 and e = ErrMapFull] del
    by (simp add: uint32_5000 Put_full_maps err_Error_def)
qed

text \<open>
  Counterexample to C5 as stated: on the empty table the delete behind
  \<open>CLEAR_TAINT(100)\<close> fails, and the response is a success.
\<close>

theorem delete_failure_not_surfaced_counterexample:
  "ProcessMap_Delete empty_maps (uint32 100) = Inl ErrKeyNotExist \<and>
   Success (fst (handleCommand empty_maps (CLEAR_TAINT 100)))"
  by (simp add: ProcessMap_Delete_def process_map_empty_maps handle_CLEAR_TAINT success_def)

text \<open>
  The messages that fail validation are malformed in the sense of the specification.
\<close>

lemma fails_validation_malformed: "fails_validation l \<Longrightarrow> spec_malformed l"
  by (auto simp add: fails_validation_def spec_malformed_def spec_valid_pid_def
      spec_valid_taint_level_def as_float64_def split: wire_line.splits option.splits json.splits)

text \<open>
  Claim C6, as amended. For every command message that cannot be parsed, or whose \<open>pid\<close>
  (\<open>UPDATE_TAINT\<close>, \<open>CLEAR_TAINT\<close>, \<open>REGISTER_AGENT\<close>) or \<open>taint_level\<close> (\<open>UPDATE_TAINT\<close>) is
  missing or not a JSON number, the daemon answers with a validation failure
  (\<open>Success = False\<close> and an error string), the maps are not changed, and the connection
  stays open: the lines that follow are handled as if the message had not been sent.
\<close>

theorem malformed_input_rejected:
  assumes "fails_validation l"
  shows "handleConnection m (l # rest) =
           (validation_failure l # fst (handleConnection m rest),
            snd (handleConnection m rest)) \<and>
         \<not> Success (validation_failure l) \<and> Error (validation_failure l) \<noteq> []"
proof (cases l)
  case (Undecodable err)
  then show ?thesis
    by (simp add: split_beta validation_failure_def failure_def)
next
  case (Decoded cmd)
  with assms have "handleCommand m cmd = (validation_failure l, m)"
    by (simp add: malformed_command)
  with Decoded show ?thesis
    by (simp add: split_beta validation_failure_def missing_or_invalid_def)
qed

text \<open>
  Witness for C6: an \<open>UPDATE_TAINT\<close> with a string pid, then an undecodable line, then
  \<open>PING\<close>.
\<close>

theorem malformed_input_rejected_witness:
  "handleConnection empty_maps [Decoded bad_pid_update, Undecodable ''unexpected end of JSON input'',
       Decoded PING] =
     ([\<lparr>Success = False, Error = ''Missing or invalid '' @ [CHR 0x27] @ ''pid'' @ [CHR 0x27],
        RespData = NoData\<rparr>,
       \<lparr>Success = False, Error = ''Invalid JSON: unexpected end of JSON input'', RespData = NoData\<rparr>,
       \<lparr>Success = True, Error = [], RespData = DataString ''pong''\<rparr>], empty_maps)"
proof -
  have bad1: "fails_validation (Decoded bad_pid_update)"
    by (simp add: fails_validation_def bad_pid_update_def as_float64_def)
  have bad2: "fails_validation (Undecodable ''unexpected end of JSON input'')"
    by (simp add: fails_validation_def)
  have rest: "handleConnection empty_maps [Decoded PING] =
                ([\<lparr>Success = True, Error = [], RespData = DataString ''pong''\<rparr>], empty_maps)"
    by (simp add: handle_PING)
  show ?thesis
    using malformed_input_rejected [OF bad1, where m = empty_maps
            and rest = "[Undecodable ''unexpected end of JSON input'', Decoded PING]"]
          malformed_input_rejected [OF bad2, where m = empty_maps and rest = "[Decoded PING]"]
          rest
    by (simp add: validation_failure_def bad_pid_update_def as_float64_def
        missing_or_invalid_def)
qed

text \<open>
  Counterexample to C6 as stated: \<open>UPDATE_TAINT(100, 99)\<close>, whose taint level is none of
  the five levels, and \<open>REGISTER_AGENT\<close> for pid 100 without \<open>comm\<close> are malformed, yet on
  the empty table each is answered with success and writes an entry for pid 100.
\<close>

theorem malformed_input_accepted_counterexample:
  "process_map empty_maps 100 = None \<and>
   spec_malformed (Decoded (UPDATE_TAINT 100 99)) \<and>
   fst (handleCommand empty_maps (UPDATE_TAINT 100 99)) = success \<and>
   process_map (snd (handleCommand empty_maps (UPDATE_TAINT 100 99))) 100 =
     Some \<lparr>pid = 100, taint_level = 99, is_sandboxed = 0, comm = zero_comm\<rparr> \<and>
   spec_malformed (Decoded register_without_comm) \<and>
   fst (handleCommand empty_maps register_without_comm) = success \<and>
   process_map (snd (handleCommand empty_maps register_without_comm)) 100 =
     Some \<lparr>pid = 100, taint_level = 0, is_sandboxed = 0, comm = zero_comm\<rparr>"
proof -
  have room: "card (dom (process_map empty_maps)) < process_map_max_entries"
    by (simp add: process_map_empty_maps process_map_max_entries_def)
  have bad_level: "spec_malformed (Decoded (UPDATE_TAINT 100 99))"
    by (simp add: spec_malformed_def UPDATE_TAINT_def spec_valid_taint_level_def)
  have bad_comm: "spec_malformed (Decoded register_without_comm)"
    by (simp add: spec_malformed_def register_without_comm_def spec_valid_comm_def)
  have upd: "handleCommand empty_maps (UPDATE_TAINT 100 99) =
               (success, empty_maps\<lparr>process_map := (process_map empty_maps)(100 \<mapsto> taint_entry 100 99)\<rparr>)"
    by (simp add: handle_UPDATE_TAINT uint32_small Put_room [OF room])
  have reg: "handleCommand empty_maps register_without_comm =
               (success, empty_maps\<lparr>process_map := (process_map empty_maps)(100 \<mapsto> taint_entry 100 0)\<rparr>)"
    by (simp add: handleCommand_def register_without_comm_def cmdRegisterAgent_def as_float64_def
        as_string_def uint32_small Put_room [OF room] taint_entry_def TAINT_CLEAN_def)
  show ?thesis
    by (simp add: bad_level bad_comm upd reg taint_entry_def process_map_empty_maps)
qed

text \<open>
  Claim C7. For every command whose name is none of the five supported ones the daemon
  answers with a failure whose error is \<open>Unknown command: \<close> followed by the name, the
  maps are not changed, and a following \<open>PING\<close> on the same connection is answered with
  success.
\<close>

theorem unknown_command_rejected:
  assumes "Command cmd \<notin> {''PING'', ''UPDATE_TAINT'', ''CLEAR_TAINT'', ''REGISTER_AGENT'', ''GET_STATE''}"
  shows "handleConnection m (Decoded cmd # Decoded PING # rest) =
           (\<lparr>Success = False, Error = ''Unknown command: '' @ Command cmd, RespData = NoData\<rparr>
              # \<lparr>Success = True, Error = [], RespData = DataString ''pong''\<rparr>
              # fst (handleConnection m rest),
            snd (handleConnection m rest))"
proof -
  from assms have "handleCommand m cmd = (failure (''Unknown command: '' @ Command cmd), m)"
    by (simp add: handleCommand_def)
  then show ?thesis
    by (simp add: split_beta handle_PING failure_def)
qed

text \<open>Witness for C7: the command \<open>FOO\<close>, then \<open>PING\<close>.\<close>

theorem unknown_command_rejected_witness:
  "handleConnection empty_maps [Decoded FOO, Decoded PING] =
     ([\<lparr>Success = False, Error = ''Unknown command: FOO'', RespData = NoData\<rparr>,
       \<lparr>Success = True, Error = [], RespData = DataString ''pong''\<rparr>], empty_maps)"
proof -
  have unknown: "Command FOO \<notin> {''PING'', ''UPDATE_TAINT'', ''CLEAR_TAINT'', ''REGISTER_AGENT'', ''GET_STATE''}"
    by (simp add: FOO_def)
  show ?thesis
    using unknown_command_rejected [OF unknown, where m = empty_maps and rest = "[]"]
    by (simp add: FOO_def)
qed

section \<open>Properties of the bootstrap\<close>

lemma loadBPF_reached:
  assumes "LoadCollectionSpec env = None" "NewCollection env = Inr coll"
  shows "loadBPF env d =
           (case attach_check_exec env coll
                   ((case Pin env of
                       Some err \<Rightarrow> log_Println (''Warning: Failed to pin process_map: '' @ err)
                                     (d\<lparr>maps := Some (Maps coll)\<rparr>)
                     | None \<Rightarrow> d\<lparr>maps := Some (Maps coll)\<rparr>)
                    \<lparr>links := Some \<lparr>CheckExec = None, CheckFile = None, TaskAlloc = None\<rparr>\<rparr>) of
              (Some err, d4) \<Rightarrow> (Some err, d4)
            | (None, d4) \<Rightarrow> (None, attach_task_alloc env coll (attach_check_file env coll d4)))"
  using assms by (simp add: loadBPF_def Let_def)

lemma listener_frame:
  "listener (log_Println line d) = listener d"
  "listener (set_CheckExec l d) = listener d"
  "listener (set_CheckFile l d) = listener d"
  "listener (set_TaskAlloc l d) = listener d"
  "listener (attach_check_file env coll d) = listener d"
  "listener (attach_task_alloc env coll d) = listener d"
  by (simp_all add: log_Println_def set_CheckExec_def set_CheckFile_def set_TaskAlloc_def
      attach_check_file_def attach_task_alloc_def split: option.splits)

lemma exec_attach_failure_aborts_load:
  assumes "LoadCollectionSpec env = None" "NewCollection env = Inr coll"
    and "''telos_check_exec'' \<in> set (Programs coll)"
    and "AttachLSM env ''telos_check_exec'' = Some err"
  shows "fst (loadBPF env d) = Some (''attach check_exec: '' @ err)"
    and "listener (snd (loadBPF env d)) = listener d"
  using assms
  by (simp_all add: loadBPF_reached attach_check_exec_def listener_frame split: option.splits)

lemma exec_attach_failure_aborts_Start:
  assumes "RemoveMemlock env = None" "MkdirAll env = None"
    and "LoadCollectionSpec env = None" "NewCollection env = Inr coll"
    and "''telos_check_exec'' \<in> set (Programs coll)"
    and "AttachLSM env ''telos_check_exec'' = Some err"
  shows "fst (Start env d) = Some (''failed to load BPF: attach check_exec: '' @ err)"
    and "listener (snd (Start env d)) = listener d"
proof -
  let ?d1 = "log_Println (check_mark @ '' Removed memory lock limits'') d"
  from assms have load: "fst (loadBPF env ?d1) = Some (''attach check_exec: '' @ err)"
    "listener (snd (loadBPF env ?d1)) = listener ?d1"
    by (simp_all add: exec_attach_failure_aborts_load)
  obtain e d2 where l: "loadBPF env ?d1 = (e, d2)"
    by (cases "loadBPF env ?d1")
  with load have "e = Some (''attach check_exec: '' @ err)" "listener d2 = listener d"
    by (simp_all add: listener_frame)
  with l assms(1,2)
  show "fst (Start env d) = Some (''failed to load BPF: attach check_exec: '' @ err)"
    and "listener (snd (Start env d)) = listener d"
    by (simp_all add: Start_def Let_def)
qed

lemma attach_check_exec_ok:
  assumes "''telos_check_exec'' \<in> set (Programs coll) \<longrightarrow> AttachLSM env ''telos_check_exec'' = None"
  shows "fst (attach_check_exec env coll d) = None"
    and "maps (snd (attach_check_exec env coll d)) = maps d"
    and "links d = Some ls \<Longrightarrow>
           map_option CheckFile (links (snd (attach_check_exec env coll d))) = Some (CheckFile ls) \<and>
           map_option TaskAlloc (links (snd (attach_check_exec env coll d))) = Some (TaskAlloc ls)"
  using assms
  by (simp_all add: attach_check_exec_def log_Println_def set_CheckExec_def)

lemma attach_check_file_frame:
  "maps (attach_check_file env coll d) = maps d"
  "map_option TaskAlloc (links (attach_check_file env coll d)) = map_option TaskAlloc (links d)"
  by (simp_all add: attach_check_file_def log_Println_def set_CheckFile_def option.map_comp
      comp_def split: option.splits)

lemma attach_check_file_failed:
  assumes "''telos_check_file'' \<in> set (Programs coll)"
    and "AttachLSM env ''telos_check_file'' = Some err"
  shows "''Warning: Failed to attach check_file: '' @ err \<in> set (logged (attach_check_file env coll d))"
    and "links (attach_check_file env coll d) = links d"
  using assms by (simp_all add: attach_check_file_def log_Println_def)

lemma attach_task_alloc_frame:
  "maps (attach_task_alloc env coll d) = maps d"
  "map_option CheckFile (links (attach_task_alloc env coll d)) = map_option CheckFile (links d)"
  "x \<in> set (logged d) \<Longrightarrow> x \<in> set (logged (attach_task_alloc env coll d))"
  by (simp_all add: attach_task_alloc_def log_Println_def set_TaskAlloc_def option.map_comp
      comp_def split: option.splits)

lemma attach_task_alloc_failed:
  assumes "''telos_task_alloc'' \<in> set (Programs coll)"
    and "AttachLSM env ''telos_task_alloc'' = Some err"
  shows "''Warning: Failed to attach task_alloc: '' @ err \<in> set (logged (attach_task_alloc env coll d))"
    and "links (attach_task_alloc env coll d) = links d"
  using assms by (simp_all add: attach_task_alloc_def log_Println_def)

lemma loadBPF_best_effort:
  assumes "LoadCollectionSpec env = None" "NewCollection env = Inr coll"
    and "''telos_check_exec'' \<in> set (Programs coll) \<longrightarrow> AttachLSM env ''telos_check_exec'' = None"
  shows "fst (loadBPF env d) = None"
    and "maps (snd (loadBPF env d)) = Some (Maps coll)"
    and "''telos_check_file'' \<in> set (Programs coll) \<Longrightarrow>
         AttachLSM env ''telos_check_file'' = Some err \<Longrightarrow>
           ''Warning: Failed to attach check_file: '' @ err \<in> set (logged (snd (loadBPF env d))) \<and>
           map_option CheckFile (links (snd (loadBPF env d))) = Some None"
    and "''telos_task_alloc'' \<in> set (Programs coll) \<Longrightarrow>
         AttachLSM env ''telos_task_alloc'' = Some err \<Longrightarrow>
           ''Warning: Failed to attach task_alloc: '' @ err \<in> set (logged (snd (loadBPF env d))) \<and>
           map_option TaskAlloc (links (snd (loadBPF env d))) = Some None"
proof -
  let ?d3 = "(case Pin env of
                Some err \<Rightarrow> log_Println (''Warning: Failed to pin process_map: '' @ err)
                              (d\<lparr>maps := Some (Maps coll)\<rparr>)
              | None \<Rightarrow> d\<lparr>maps := Some (Maps coll)\<rparr>)
             \<lparr>links := Some \<lparr>CheckExec = None, CheckFile = None, TaskAlloc = None\<rparr>\<rparr>"
  let ?d4 = "snd (attach_check_exec env coll ?d3)"
  let ?d5 = "attach_check_file env coll ?d4"
  have d3: "maps ?d3 = Some (Maps coll)"
    "links ?d3 = Some \<lparr>CheckExec = None, CheckFile = None, TaskAlloc = None\<rparr>"
    by (simp_all add: log_Println_def split: option.splits)
  have ok: "fst (attach_check_exec env coll ?d3) = None"
    by (rule attach_check_exec_ok(1) [OF assms(3)])
  have d4: "maps ?d4 = Some (Maps coll)"
    "map_option CheckFile (links ?d4) = Some None"
    "map_option TaskAlloc (links ?d4) = Some None"
    using attach_check_exec_ok(2) [OF assms(3), of ?d3]
      attach_check_exec_ok(3) [OF assms(3) d3(2)] d3(1)
    by simp_all
  have load: "loadBPF env d = (None, attach_task_alloc env coll ?d5)"
    using ok by (simp add: loadBPF_reached [OF assms(1,2)] split_beta)
  show "fst (loadBPF env d) = None"
    by (simp add: load)
  show "maps (snd (loadBPF env d)) = Some (Maps coll)"
    by (simp add: load attach_task_alloc_frame attach_check_file_frame d4)
  show "''Warning: Failed to attach check_file: '' @ err \<in> set (logged (snd (loadBPF env d))) \<and>
        map_option CheckFile (links (snd (loadBPF env d))) = Some None"
    if "''telos_check_file'' \<in> set (Programs coll)" "AttachLSM env ''telos_check_file'' = Some err"
    using attach_check_file_failed [OF that, of ?d4] d4
    by (simp add: load attach_task_alloc_frame)
  show "''Warning: Failed to attach task_alloc: '' @ err \<in> set (logged (snd (loadBPF env d))) \<and>
        map_option TaskAlloc (links (snd (loadBPF env d))) = Some None"
    if "''telos_task_alloc'' \<in> set (Programs coll)" "AttachLSM env ''telos_task_alloc'' = Some err"
    using attach_task_alloc_failed [OF that, of ?d5] d4
    by (simp add: load attach_check_file_frame)
qed

lemma Start_after_load:
  assumes "RemoveMemlock env = None" "MkdirAll env = None"
    and "loadBPF env (log_Println (check_mark @ '' Removed memory lock limits'') d) = (None, d2)"
    and "maps d2 = Some m"
    and "ConfigMap_Put env = None" "Listen env = None"
  shows "fst (Start env d) = None"
    and "listener (snd (Start env d))"
    and "links (snd (Start env d)) = links d2"
    and "set (logged d2) \<subseteq> set (logged (snd (Start env d)))"
  using assms
  by (auto simp add: Start_def initConfig_def startSocketServer_def log_Println_def Let_def)

lemma boot_with_fields:
  "Geteuid (boot_with a) = 0" "RemoveMemlock (boot_with a) = None"
  "MkdirAll (boot_with a) = None" "LoadCollectionSpec (boot_with a) = None"
  "NewCollection (boot_with a) = Inr fresh_collection"
  "ConfigMap_Put (boot_with a) = None" "Listen (boot_with a) = None"
  "AttachLSM (boot_with a) = a"
  by (simp_all add: boot_with_def)

lemma fresh_collection_programs:
  "''telos_check_exec'' \<in> set (Programs fresh_collection)"
  "''telos_check_file'' \<in> set (Programs fresh_collection)"
  "''telos_task_alloc'' \<in> set (Programs fresh_collection)"
  by (simp_all add: fresh_collection_def)

text \<open>
  Claim C8. In a bootstrap that reaches the attachment of the hooks (root, limits
  lifted, pin directory made, object loaded): a failure to attach the pre-execution gate
  ends \<open>main\<close> with a fatal error, and the listener is never started; when that
  attachment and the later steps succeed, a failure to attach the file-open gate or the
  process-creation observer is logged as a warning, the link stays nil, and the daemon
  serves connections.
\<close>

theorem exec_attach_mandatory_others_best_effort:
  assumes "Geteuid env = 0" and "RemoveMemlock env = None" and "MkdirAll env = None"
    and "LoadCollectionSpec env = None" and "NewCollection env = Inr coll"
  shows "(''telos_check_exec'' \<in> set (Programs coll) \<and>
          AttachLSM env ''telos_check_exec'' = Some err \<longrightarrow>
            main env = Fatal (''Failed to start: failed to load BPF: attach check_exec: '' @ err) \<and>
            \<not> listener (snd (Start env (NewTelosDaemon (flag_socket env) (flag_bpf_obj env))))) \<and>
         ((''telos_check_exec'' \<in> set (Programs coll) \<longrightarrow>
             AttachLSM env ''telos_check_exec'' = None) \<and>
          ConfigMap_Put env = None \<and> Listen env = None \<longrightarrow>
            (\<exists>d. main env = Serving d \<and> listener d \<and>
               (''telos_check_file'' \<in> set (Programs coll) \<and>
                AttachLSM env ''telos_check_file'' = Some err \<longrightarrow>
                  ''Warning: Failed to attach check_file: '' @ err \<in> set (logged d) \<and>
                  map_option CheckFile (links d) = Some None) \<and>
               (''telos_task_alloc'' \<in> set (Programs coll) \<and>
                AttachLSM env ''telos_task_alloc'' = Some err \<longrightarrow>
                  ''Warning: Failed to attach task_alloc: '' @ err \<in> set (logged d) \<and>
                  map_option TaskAlloc (links d) = Some None)))"
proof (intro conjI impI)
  let ?d0 = "NewTelosDaemon (flag_socket env) (flag_bpf_obj env)"
  assume fail: "''telos_check_exec'' \<in> set (Programs coll) \<and>
                AttachLSM env ''telos_check_exec'' = Some err"
  note aborted = exec_attach_failure_aborts_Start [OF assms(2-5) conjunct1 [OF fail]
      conjunct2 [OF fail], where d = ?d0]
  obtain e d where st: "Start env ?d0 = (e, d)"
    by (cases "Start env ?d0")
  with aborted have "e = Some (''failed to load BPF: attach check_exec: '' @ err)"
    by simp
  with st assms(1)
  show "main env = Fatal (''Failed to start: failed to load BPF: attach check_exec: '' @ err)"
    by (simp add: main_def)
  from aborted(2) show "\<not> listener (snd (Start env ?d0))"
    by (simp add: NewTelosDaemon_def)
next
  let ?d0 = "NewTelosDaemon (flag_socket env) (flag_bpf_obj env)"
  let ?d1 = "log_Println (check_mark @ '' Removed memory lock limits'') ?d0"
  assume ok: "(''telos_check_exec'' \<in> set (Programs coll) \<longrightarrow>
                 AttachLSM env ''telos_check_exec'' = None) \<and>
              ConfigMap_Put env = None \<and> Listen env = None"
  then have exec_ok: "''telos_check_exec'' \<in> set (Programs coll) \<longrightarrow>
                        AttachLSM env ''telos_check_exec'' = None"
    and cfg: "ConfigMap_Put env = None" and lst: "Listen env = None"
    by simp_all
  note load = loadBPF_best_effort [OF assms(4,5) exec_ok, where d = ?d1]
  obtain d2 where d2: "loadBPF env ?d1 = (None, d2)"
    using load(1) by (cases "loadBPF env ?d1") simp
  with load(2) have m: "maps d2 = Some (Maps coll)"
    by simp
  note started = Start_after_load [OF assms(2,3) d2 m cfg lst]
  obtain d where st: "Start env ?d0 = (None, d)"
    using started(1) by (cases "Start env ?d0") simp
  with assms(1) have serving: "main env = Serving d"
    by (simp add: main_def)
  from st started have d: "listener d" "links d = links d2" "set (logged d2) \<subseteq> set (logged d)"
    by simp_all
  have file_warned: "''Warning: Failed to attach check_file: '' @ err \<in> set (logged d) \<and>
              map_option CheckFile (links d) = Some None"
    if "''telos_check_file'' \<in> set (Programs coll) \<and> AttachLSM env ''telos_check_file'' = Some err"
    using load(3) [where err = err] that d d2 by auto
  have task: "''Warning: Failed to attach task_alloc: '' @ err \<in> set (logged d) \<and>
              map_option TaskAlloc (links d) = Some None"
    if "''telos_task_alloc'' \<in> set (Programs coll) \<and> AttachLSM env ''telos_task_alloc'' = Some err"
    using load(4) [where err = err] that d d2 by auto
  from serving d(1) file_warned task
  show "\<exists>d. main env = Serving d \<and> listener d \<and>
          (''telos_check_file'' \<in> set (Programs coll) \<and>
           AttachLSM env ''telos_check_file'' = Some err \<longrightarrow>
             ''Warning: Failed to attach check_file: '' @ err \<in> set (logged d) \<and>
             map_option CheckFile (links d) = Some None) \<and>
          (''telos_task_alloc'' \<in> set (Programs coll) \<and>
           AttachLSM env ''telos_task_alloc'' = Some err \<longrightarrow>
             ''Warning: Failed to attach task_alloc: '' @ err \<in> set (logged d) \<and>
             map_option TaskAlloc (links d) = Some None)"
    by blast
qed

text \<open>
  Witness for C8: the three environments in which exactly one attachment fails with
  \<open>operation not permitted\<close>.
\<close>

theorem exec_attach_mandatory_others_best_effort_witness:
  "main (boot_with (attach_fails_for ''telos_check_exec'')) =
     Fatal ''Failed to start: failed to load BPF: attach check_exec: operation not permitted'' \<and>
   (\<exists>d. main (boot_with (attach_fails_for ''telos_check_file'')) = Serving d \<and> listener d \<and>
        ''Warning: Failed to attach check_file: operation not permitted'' \<in> set (logged d) \<and>
        map_option CheckFile (links d) = Some None) \<and>
   (\<exists>d. main (boot_with (attach_fails_for ''telos_task_alloc'')) = Serving d \<and> listener d \<and>
        ''Warning: Failed to attach task_alloc: operation not permitted'' \<in> set (logged d) \<and>
        map_option TaskAlloc (links d) = Some None)"
  using exec_attach_mandatory_others_best_effort
          [OF boot_with_fields(1-5), where a1 = "attach_fails_for ''telos_check_exec''"
             and err = "''operation not permitted''"]
        exec_attach_mandatory_others_best_effort
          [OF boot_with_fields(1-5), where a1 = "attach_fails_for ''telos_check_file''"
             and err = "''operation not permitted''"]
        exec_attach_mandatory_others_best_effort
          [OF boot_with_fields(1-5), where a1 = "attach_fails_for ''telos_task_alloc''"
             and err = "''operation not permitted''"]
  by (simp add: boot_with_fields fresh_collection_programs attach_fails_for_def)

end
